theory Spec2Isabelle
  imports Main
begin

section \<open>Data model of the package watcher (package buildermgr)\<close>

text \<open>
  The watcher works on Kubernetes style objects: object metadata, a spec and a status.
  Only the fields the watcher reads or writes are kept.  Go strings are \<open>string\<close>,
  a Go \<open>map[string]string\<close> of labels is an association list read with the default
  \<open>""\<close> that a Go map lookup gives for a missing key.
\<close>

type_synonym Duration = int
type_synonym Time = int

record EnvironmentReference =
  Namespace :: string
  Name :: string

text \<open>A package reference is a namespace, a name and a resource version.\<close>

record PackageRef = EnvironmentReference +
  ResourceVersion :: string

record ObjectMeta = PackageRef +
  Labels :: "(string \<times> string) list"

definition label :: "ObjectMeta \<Rightarrow> string \<Rightarrow> string" where
  "label obj k = (case map_of (Labels obj) k of None \<Rightarrow> [] | Some v \<Rightarrow> v)"

record Archive =
  Type :: string
  Literal :: string
  URL :: string

text \<open>
  \<open>BuildStatus\<close> is a Go string type; a package applied without a status field has the
  empty string there.
\<close>

type_synonym BuildStatus = string

text \<open>
  Modelled from the spec: the five status constants are declared with the API types,
  which are not under src/.  The spec names them None, Pending, Running, Succeeded and
  Failed; the proofs only use that they are distinct and not empty.
\<close>

definition BuildStatusPending :: BuildStatus where "BuildStatusPending = ''pending''"
definition BuildStatusRunning :: BuildStatus where "BuildStatusRunning = ''running''"
definition BuildStatusSucceeded :: BuildStatus where "BuildStatusSucceeded = ''succeeded''"
definition BuildStatusFailed :: BuildStatus where "BuildStatusFailed = ''failed''"
definition BuildStatusNone :: BuildStatus where "BuildStatusNone = ''none''"

record PackageSpec =
  Environment :: EnvironmentReference
  Source :: Archive
  Deployment :: Archive

record PackageStatus =
  BuildStatus :: BuildStatus
  BuildLog :: string
  LastUpdateTimestamp :: Time

record Package =
  ObjectMeta :: ObjectMeta
  Spec :: PackageSpec
  Status :: PackageStatus

text \<open>The environment is only read through its metadata.\<close>

record Environment =
  EnvMeta :: ObjectMeta

record ContainerStatus =
  Ready :: bool

record Pod =
  PodMeta :: ObjectMeta
  ContainerStatuses :: "ContainerStatus list"

record Function =
  FnMeta :: ObjectMeta
  FnPackageRef :: PackageRef

record ArchiveUploadResponse =
  ArchiveDownloadUrl :: string

text \<open>
  Errors are values.  \<open>k8serrors.IsNotFound\<close> only tells the not-found reason from
  every other one; on \<open>nil\<close> it is false.
\<close>

datatype Error = NotFoundError string | OtherError string

fun errorText :: "Error \<Rightarrow> string" where
  "errorText (NotFoundError m) = m"
| "errorText (OtherError m) = m"

fun IsNotFound :: "Error option \<Rightarrow> bool" where
  "IsNotFound None = False"
| "IsNotFound (Some (NotFoundError m)) = True"
| "IsNotFound (Some (OtherError m)) = False"

section \<open>The collaborators of the watcher\<close>

text \<open>
  Every call that leaves the watcher is recorded, with its arguments and the error it
  returned, in the order the calls are made.
\<close>

datatype event =
    UpdatePackageCall Package BuildStatus string "ArchiveUploadResponse option" "Error option"
  | PackagesUpdateCall Package "Error option"
  | GetEnvironmentCall string string "Error option"
  | ListPodsCall string
  | SleepCall Duration
  | BuildPackageCall string Package "Error option"
  | ListFunctionsCall string "Error option"
  | UpdateFunctionCall Function "Error option"

text \<open>
  The resource store, the builder and the pod informer are outside the watcher: their
  answers are functions of an external state \<open>'w\<close> that every call may change.  The
  back-off generator (type \<open>'b\<close>), the namespace resolver, the helpers
  \<open>updatePackage\<close> and \<open>buildPackage\<close>, \<open>Archive.IsEmpty\<close>, the three label keys and
  the quoting of \<open>%q\<close> are code that is not under src/: they are parameters of the
  model, with the result types of their Go signatures.  \<open>NextExists\<close> and
  \<open>GetCurrentBackoffDuration\<close> are read-only queries, \<open>GetNext\<close> returns the
  duration and the advanced generator.  A Go call that returns a value and an error
  returns both here where the caller reads the value whatever the error is
  (\<open>Environments.Get\<close>, \<open>buildPackage\<close>, \<open>Functions.List\<close>); \<open>updatePackage\<close>
  and \<open>Packages.Update\<close> return the error or the stored package, since their
  package is only read when the error is nil.  Log output has no effect on the state and
  is left out.
\<close>

record ('w, 'b) packageWatcher =
  updatePackage :: "Package \<Rightarrow> BuildStatus \<Rightarrow> string \<Rightarrow> ArchiveUploadResponse option
                      \<Rightarrow> 'w \<Rightarrow> (Error + Package) \<times> 'w"
  packagesUpdate :: "Package \<Rightarrow> 'w \<Rightarrow> (Error + Package) \<times> 'w"
  environmentsGet :: "string \<Rightarrow> string \<Rightarrow> 'w \<Rightarrow> (Environment \<times> Error option) \<times> 'w"
  podInformerList :: "string \<Rightarrow> 'w \<Rightarrow> Pod list \<times> 'w"
  buildPackage :: "string \<Rightarrow> string \<Rightarrow> Package
                      \<Rightarrow> 'w \<Rightarrow> (ArchiveUploadResponse \<times> string \<times> Error option) \<times> 'w"
  functionsList :: "string \<Rightarrow> 'w \<Rightarrow> (Function list \<times> Error option) \<times> 'w"
  functionsUpdate :: "Function \<Rightarrow> 'w \<Rightarrow> Error option \<times> 'w"
  timeNow :: "'w \<Rightarrow> Time"
  GetBuilderNS :: "string \<Rightarrow> string"
  storageSvcUrl :: string
  NewDefaultBackOff :: 'b
  NextExists :: "'b \<Rightarrow> bool"
  GetNext :: "'b \<Rightarrow> Duration \<times> 'b"
  GetCurrentBackoffDuration :: "'b \<Rightarrow> Duration"
  IsEmpty :: "Archive \<Rightarrow> bool"
  LABEL_ENV_NAME :: string
  LABEL_ENV_NAMESPACE :: string
  LABEL_ENV_RESOURCEVERSION :: string
  quoteQ :: "string \<Rightarrow> string"

type_synonym 'w run = "'w \<times> event list"

fun errorOf :: "Error + 'a \<Rightarrow> Error option" where
  "errorOf (Inl e) = Some e"
| "errorOf (Inr x) = None"

definition callUpdatePackage ::
  "('w, 'b) packageWatcher \<Rightarrow> Package \<Rightarrow> BuildStatus \<Rightarrow> string
     \<Rightarrow> ArchiveUploadResponse option \<Rightarrow> 'w run \<Rightarrow> (Error + Package) \<times> 'w run" where
  "callUpdatePackage pkgw pkg status buildLogs uploadResp st =
     (case updatePackage pkgw pkg status buildLogs uploadResp (fst st) of
        (r, w) \<Rightarrow> (r, (w, snd st @ [UpdatePackageCall pkg status buildLogs uploadResp (errorOf r)])))"

definition callPackagesUpdate ::
  "('w, 'b) packageWatcher \<Rightarrow> Package \<Rightarrow> 'w run \<Rightarrow> (Error + Package) \<times> 'w run" where
  "callPackagesUpdate pkgw pkg st =
     (case packagesUpdate pkgw pkg (fst st) of
        (r, w) \<Rightarrow> (r, (w, snd st @ [PackagesUpdateCall pkg (errorOf r)])))"

definition callEnvironmentsGet ::
  "('w, 'b) packageWatcher \<Rightarrow> string \<Rightarrow> string \<Rightarrow> 'w run
     \<Rightarrow> (Environment \<times> Error option) \<times> 'w run" where
  "callEnvironmentsGet pkgw ns name st =
     (case environmentsGet pkgw ns name (fst st) of
        ((env, err), w) \<Rightarrow> ((env, err), (w, snd st @ [GetEnvironmentCall ns name err])))"

definition callPodInformerList ::
  "('w, 'b) packageWatcher \<Rightarrow> string \<Rightarrow> 'w run \<Rightarrow> Pod list \<times> 'w run" where
  "callPodInformerList pkgw ns st =
     (case podInformerList pkgw ns (fst st) of
        (items, w) \<Rightarrow> (items, (w, snd st @ [ListPodsCall ns])))"

definition callBuildPackage ::
  "('w, 'b) packageWatcher \<Rightarrow> string \<Rightarrow> Package \<Rightarrow> 'w run
     \<Rightarrow> (ArchiveUploadResponse \<times> string \<times> Error option) \<times> 'w run" where
  "callBuildPackage pkgw builderNs pkg st =
     (case buildPackage pkgw builderNs (storageSvcUrl pkgw) pkg (fst st) of
        ((uploadResp, buildLogs, err), w) \<Rightarrow>
          ((uploadResp, buildLogs, err), (w, snd st @ [BuildPackageCall builderNs pkg err])))"

definition callFunctionsList ::
  "('w, 'b) packageWatcher \<Rightarrow> string \<Rightarrow> 'w run
     \<Rightarrow> (Function list \<times> Error option) \<times> 'w run" where
  "callFunctionsList pkgw ns st =
     (case functionsList pkgw ns (fst st) of
        ((items, err), w) \<Rightarrow> ((items, err), (w, snd st @ [ListFunctionsCall ns err])))"

definition callFunctionsUpdate ::
  "('w, 'b) packageWatcher \<Rightarrow> Function \<Rightarrow> 'w run \<Rightarrow> Error option \<times> 'w run" where
  "callFunctionsUpdate pkgw fn st =
     (case functionsUpdate pkgw fn (fst st) of
        (err, w) \<Rightarrow> (err, (w, snd st @ [UpdateFunctionCall fn err])))"

definition sleepFor :: "Duration \<Rightarrow> 'w run \<Rightarrow> 'w run" where
  "sleepFor d st = (fst st, snd st @ [SleepCall d])"

section \<open>setInitialBuildStatus\<close>

text \<open>
  The status is replaced by a fresh one that only carries the time, then the build
  status is chosen from the two archives, then the package is written to the store.
\<close>

definition initialStatus :: "('w, 'b) packageWatcher \<Rightarrow> Time \<Rightarrow> Package \<Rightarrow> Package" where
  "initialStatus pkgw now pkg =
     (let pkg0 = pkg\<lparr>Status := \<lparr>BuildStatus = [], BuildLog = [], LastUpdateTimestamp = now\<rparr>\<rparr>
      in if \<not> IsEmpty pkgw (Deployment (Spec pkg0)) then
           pkg0\<lparr>Status := (Status pkg0)\<lparr>BuildStatus := BuildStatusNone\<rparr>\<rparr>
         else if \<not> IsEmpty pkgw (Source (Spec pkg0)) then
           pkg0\<lparr>Status := (Status pkg0)\<lparr>BuildStatus := BuildStatusPending\<rparr>\<rparr>
         else
           pkg0\<lparr>Status := (Status pkg0)\<lparr>BuildStatus := BuildStatusFailed,
                  BuildLog := ''Both deploy and source archive are empty''\<rparr>\<rparr>)"

definition setInitialBuildStatus ::
  "('w, 'b) packageWatcher \<Rightarrow> Package \<Rightarrow> 'w run \<Rightarrow> (Error + Package) \<times> 'w run" where
  "setInitialBuildStatus pkgw pkg st =
     callPackagesUpdate pkgw (initialStatus pkgw (timeNow pkgw (fst st)) pkg) st"

section \<open>The build cache\<close>

text \<open>The cache maps a key to the package a run was started with.\<close>

type_synonym Cache = "string \<rightharpoonup> Package"

text \<open>
  Modelled from the spec: \<open>Set\<close> of the cache type (package cache, not under src/).
  The spec gives its contract as \<open>admit(key, snapshot)\<close>: the answer is ok, and the
  snapshot is stored, when the key is absent; it is already-present, an error, and the
  cache is unchanged, when the key is there.  The operation is atomic.
\<close>

definition cacheSet :: "string \<Rightarrow> Package \<Rightarrow> Cache \<Rightarrow> Error option \<times> Cache" where
  "cacheSet key v c =
     (case c key of
        Some old \<Rightarrow> (Some (OtherError ''name exists''), c)
      | None \<Rightarrow> (None, c(key \<mapsto> v)))"

text \<open>
  Modelled from the spec: \<open>Delete\<close> of the cache type (package cache, not under src/).
  The spec gives its contract as \<open>release(key)\<close>: the key is removed, and the absence
  of the key is not an error.  The operation is atomic.
\<close>

definition cacheDelete :: "string \<Rightarrow> Cache \<Rightarrow> Error option \<times> Cache" where
  "cacheDelete key c = (None, c(key := None))"

definition buildCacheKey :: "ObjectMeta \<Rightarrow> string" where
  "buildCacheKey obj = Namespace obj @ ''-'' @ Name obj @ ''-'' @ ResourceVersion obj"

section \<open>build\<close>

text \<open>
  The package the run holds after the update to Running is a value here.  What
  \<open>updatePackage\<close> does to the object behind its pointer argument is not under
  src/; every later call of it is given that package, with the status and the log to
  write.  The informer of the resolved builder namespace is taken to exist, and the
  listed items to be pods: a missing map entry or another item type is a Go panic and
  outside the model.

  How a block of the function ends: it returned from \<open>build\<close>, or control goes on
  to the statement after the block.
\<close>

datatype 'w flow = Returned "'w run" | Continues "'w run"

text \<open>
  The loop over the listed functions (the update of the package references).  The
  loop variable is a copy of the listed function; the copy with the new resource
  version is what is sent to the store.
\<close>

definition staleRef :: "Package \<Rightarrow> Function \<Rightarrow> bool" where
  "staleRef pkg fn \<longleftrightarrow>
     Name (FnPackageRef fn) = Name (ObjectMeta pkg) \<and>
     Namespace (FnPackageRef fn) = Namespace (ObjectMeta pkg) \<and>
     ResourceVersion (FnPackageRef fn) \<noteq> ResourceVersion (ObjectMeta pkg)"

definition repoint :: "Package \<Rightarrow> Function \<Rightarrow> Function" where
  "repoint pkg fn =
     fn\<lparr>FnPackageRef := (FnPackageRef fn)\<lparr>ResourceVersion := ResourceVersion (ObjectMeta pkg)\<rparr>\<rparr>"

definition updateFailedLog :: "string \<Rightarrow> Error \<Rightarrow> string" where
  "updateFailedLog buildLogs err =
     buildLogs @ ''error updating function package resource version'' @ '': ''
       @ errorText err @ [CHR 0x0A]"

fun updateFunctions ::
  "('w, 'b) packageWatcher \<Rightarrow> Package \<Rightarrow> string \<Rightarrow> Function list \<Rightarrow> 'w run \<Rightarrow> 'w flow" where
  "updateFunctions pkgw pkg buildLogs [] st = Continues st"
| "updateFunctions pkgw pkg buildLogs (fn # items) st =
     (if staleRef pkg fn then
        (case callFunctionsUpdate pkgw (repoint pkg fn) st of
           (Some err, st1) \<Rightarrow>
             Returned (snd (callUpdatePackage pkgw pkg BuildStatusFailed
                              (updateFailedLog buildLogs err) None st1))
         | (None, st1) \<Rightarrow> updateFunctions pkgw pkg buildLogs items st1)
      else updateFunctions pkgw pkg buildLogs items st)"

text \<open>
  From the call of \<open>buildPackage\<close> to the end of the body of the loop over the pods.
  Every path of it returns from \<open>build\<close>.  After a failed listing of the functions
  the package is updated to failed and the code goes on with the listed items.
\<close>

definition listFailedLog :: "string \<Rightarrow> Error \<Rightarrow> string" where
  "listFailedLog buildLogs err =
     buildLogs @ ''error getting function list'' @ '': '' @ errorText err @ [CHR 0x0A]"

definition buildAndUpdate ::
  "('w, 'b) packageWatcher \<Rightarrow> string \<Rightarrow> Package \<Rightarrow> 'w run \<Rightarrow> 'w run" where
  "buildAndUpdate pkgw builderNs pkg st =
     (case callBuildPackage pkgw builderNs pkg st of
        ((uploadResp, buildLogs, Some err), st1) \<Rightarrow>
          snd (callUpdatePackage pkgw pkg BuildStatusFailed buildLogs None st1)
      | ((uploadResp, buildLogs, None), st1) \<Rightarrow>
          (case callFunctionsList pkgw (Namespace (ObjectMeta pkg)) st1 of
             ((items, err), st2) \<Rightarrow>
               (let (buildLogs2, st3) =
                      (case err of
                         Some e \<Rightarrow>
                           (let logs = listFailedLog buildLogs e
                            in (logs, snd (callUpdatePackage pkgw pkg BuildStatusFailed logs None st2)))
                       | None \<Rightarrow> (buildLogs, st2))
                in case updateFunctions pkgw pkg buildLogs2 items st3 of
                     Returned st4 \<Rightarrow> st4
                   | Continues st4 \<Rightarrow>
                       (case callUpdatePackage pkgw pkg BuildStatusSucceeded buildLogs2
                               (Some uploadResp) st4 of
                          (Inl e, st5) \<Rightarrow>
                            snd (callUpdatePackage pkgw pkg BuildStatusFailed buildLogs2 None st5)
                        | (Inr p, st5) \<Rightarrow> st5))))"

text \<open>The readiness of a pod: the conjunction over its container statuses.\<close>

definition podIsReady :: "Pod \<Rightarrow> bool" where
  "podIsReady pod = foldl (\<lambda>r cStatus. r \<and> Ready cStatus) True (ContainerStatuses pod)"

definition nonMatching ::
  "('w, 'b) packageWatcher \<Rightarrow> Environment \<Rightarrow> string \<Rightarrow> Pod \<Rightarrow> bool" where
  "nonMatching pkgw env builderNs pod \<longleftrightarrow>
     label (PodMeta pod) (LABEL_ENV_NAME pkgw) \<noteq> Name (EnvMeta env) \<or>
     label (PodMeta pod) (LABEL_ENV_NAMESPACE pkgw) \<noteq> builderNs \<or>
     label (PodMeta pod) (LABEL_ENV_RESOURCEVERSION pkgw) \<noteq> ResourceVersion (EnvMeta env)"

text \<open>The loop over the listed pods.\<close>

fun scanPods ::
  "('w, 'b) packageWatcher \<Rightarrow> Package \<Rightarrow> Environment \<Rightarrow> string \<Rightarrow> 'b \<Rightarrow> Pod list
     \<Rightarrow> 'w run \<Rightarrow> 'w flow" where
  "scanPods pkgw pkg env builderNs bo [] st = Continues st"
| "scanPods pkgw pkg env builderNs bo (pod # items) st =
     (if nonMatching pkgw env builderNs pod then scanPods pkgw pkg env builderNs bo items st
      else if \<not> podIsReady pod then
        Continues (sleepFor (GetCurrentBackoffDuration pkgw bo) st)
      else Returned (buildAndUpdate pkgw builderNs pkg st))"

text \<open>
  The health check loop.  It may run forever (a pod list that stays empty never asks
  the back-off for its next value), so it is a partial function: \<open>None\<close> is a run that
  does not end.  The error tested after the listing is the one of the fetch of the
  environment: the listing itself returns none.
\<close>

partial_function (option) healthCheck ::
  "('w, 'b) packageWatcher \<Rightarrow> Package \<Rightarrow> Environment \<Rightarrow> Error option \<Rightarrow> string \<Rightarrow> 'b
     \<Rightarrow> 'w run \<Rightarrow> 'w flow option" where
  "healthCheck pkgw pkg env err builderNs bo st =
     (if NextExists pkgw bo then
        (case callPodInformerList pkgw builderNs st of
           (items, st1) \<Rightarrow>
             if err \<noteq> None then Some (Returned st1)
             else if length items = 0 then
               healthCheck pkgw pkg env err builderNs bo
                 (sleepFor (GetCurrentBackoffDuration pkgw bo) st1)
             else
               (case scanPods pkgw pkg env builderNs bo items st1 of
                  Returned st2 \<Rightarrow> Some (Returned st2)
                | Continues st2 \<Rightarrow>
                    (case GetNext pkgw bo of
                       (d, bo') \<Rightarrow> healthCheck pkgw pkg env err builderNs bo' (sleepFor d st2))))
      else Some (Continues st))"

declare healthCheck.simps [code]

text \<open>The body of \<open>build\<close>, without the deferred removal of the cache key.\<close>

definition buildBody ::
  "('w, 'b) packageWatcher \<Rightarrow> Package \<Rightarrow> 'w run \<Rightarrow> 'w run option" where
  "buildBody pkgw srcpkg st =
     (case callUpdatePackage pkgw srcpkg BuildStatusRunning [] None st of
        (Inl err, st1) \<Rightarrow> Some st1
      | (Inr pkg, st1) \<Rightarrow>
          (case callEnvironmentsGet pkgw (Namespace (Environment (Spec pkg)))
                  (Name (Environment (Spec pkg))) st1 of
             ((env, err), st2) \<Rightarrow>
               if IsNotFound err then
                 Some (snd (callUpdatePackage pkgw pkg BuildStatusFailed
                   (''environment does not exist'' @ '': ''
                      @ quoteQ pkgw (Name (Environment (Spec pkg)))) None st2))
               else
                 (case healthCheck pkgw pkg env err
                         (GetBuilderNS pkgw (Namespace (EnvMeta env)))
                         (NewDefaultBackOff pkgw) st2 of
                    None \<Rightarrow> None
                  | Some (Returned st3) \<Rightarrow> Some st3
                  | Some (Continues st3) \<Rightarrow>
                      Some (snd (callUpdatePackage pkgw pkg BuildStatusFailed
                        ''Build timeout due to environment builder not ready'' None st3)))))"

text \<open>
  \<open>build\<close> with its deferred function: when the body ends, on whatever path, the key
  of the source package is deleted from the cache.  A body that never ends never
  deletes it.
\<close>

definition build ::
  "('w, 'b) packageWatcher \<Rightarrow> Package \<Rightarrow> Cache \<times> 'w run \<Rightarrow> (Cache \<times> 'w run) option" where
  "build pkgw srcpkg s =
     (case buildBody pkgw srcpkg (snd s) of
        None \<Rightarrow> None
      | Some st \<Rightarrow> Some (snd (cacheDelete (buildCacheKey (ObjectMeta srcpkg)) (fst s)), st))"

section \<open>buildWithCache and the informer handler\<close>

text \<open>
  The state of the watcher: the build cache, the runs of \<open>build\<close> that were started
  with \<open>go\<close> and have not ended, and the outside with the calls made so far.  A run
  shares only the build cache with the rest of the watcher and touches it once, in its
  deferred function; so a run is represented by the package it was started with, and
  its calls to the outside are made in the step in which it ends.
\<close>

record 'w system =
  buildCache :: Cache
  goroutines :: "Package list"
  ext :: "'w run"

definition buildWithCache ::
  "('w, 'b) packageWatcher \<Rightarrow> Package \<Rightarrow> 'w system \<Rightarrow> 'w system" where
  "buildWithCache pkgw srcpkg s =
     (case cacheSet (buildCacheKey (ObjectMeta srcpkg)) srcpkg (buildCache s) of
        (Some err, c) \<Rightarrow> s
      | (None, c) \<Rightarrow> s\<lparr>buildCache := c, goroutines := goroutines s @ [srcpkg]\<rparr>)"

definition processPkg ::
  "('w, 'b) packageWatcher \<Rightarrow> Package \<Rightarrow> 'w system \<Rightarrow> 'w system" where
  "processPkg pkgw pkg s =
     (if length (BuildStatus (Status pkg)) = 0 then
        s\<lparr>ext := snd (setInitialBuildStatus pkgw pkg (ext s))\<rparr>
      else if BuildStatus (Status pkg) = BuildStatusPending then buildWithCache pkgw pkg s
      else s)"

definition AddFunc ::
  "('w, 'b) packageWatcher \<Rightarrow> Package \<Rightarrow> 'w system \<Rightarrow> 'w system" where
  "AddFunc pkgw pkg s = processPkg pkgw pkg s"

definition UpdateFunc ::
  "('w, 'b) packageWatcher \<Rightarrow> Package \<Rightarrow> Package \<Rightarrow> 'w system \<Rightarrow> 'w system" where
  "UpdateFunc pkgw oldPkg pkg s =
     (if ResourceVersion (ObjectMeta oldPkg) = ResourceVersion (ObjectMeta pkg) \<and>
         BuildStatus (Status pkg) \<noteq> BuildStatusPending
      then s
      else processPkg pkgw pkg s)"

text \<open>
  The steps of the watcher: the informer delivers a notification to the handler, or
  the run at a position of the list of runs reaches its end.  A run that never ends
  stays in the list.
\<close>

datatype step = Added Package | Updated Package Package | Ends nat

definition endRun :: "('w, 'b) packageWatcher \<Rightarrow> nat \<Rightarrow> 'w system \<Rightarrow> 'w system" where
  "endRun pkgw i s =
     (if i < length (goroutines s) then
        (case build pkgw (goroutines s ! i) (buildCache s, ext s) of
           None \<Rightarrow> s
         | Some (c, st) \<Rightarrow>
             s\<lparr>buildCache := c,
               goroutines := take i (goroutines s) @ drop (Suc i) (goroutines s),
               ext := st\<rparr>)
      else s)"

fun doStep :: "('w, 'b) packageWatcher \<Rightarrow> step \<Rightarrow> 'w system \<Rightarrow> 'w system" where
  "doStep pkgw (Added pkg) s = AddFunc pkgw pkg s"
| "doStep pkgw (Updated oldPkg pkg) s = UpdateFunc pkgw oldPkg pkg s"
| "doStep pkgw (Ends i) s = endRun pkgw i s"

fun doSteps :: "('w, 'b) packageWatcher \<Rightarrow> step list \<Rightarrow> 'w system \<Rightarrow> 'w system" where
  "doSteps pkgw [] s = s"
| "doSteps pkgw (a # as) s = doSteps pkgw as (doStep pkgw a s)"

definition startSystem :: "'w \<Rightarrow> 'w system" where
  "startSystem w = \<lparr>buildCache = Map.empty, goroutines = [], ext = (w, [])\<rparr>"

section \<open>Observations on the recorded calls\<close>

fun isBuildCall :: "event \<Rightarrow> bool" where
  "isBuildCall (BuildPackageCall ns pkg err) = True"
| "isBuildCall ev = False"

fun isPollEvent :: "event \<Rightarrow> bool" where
  "isPollEvent (ListPodsCall ns) = True"
| "isPollEvent (SleepCall d) = True"
| "isPollEvent ev = False"

fun statusWritten :: "event \<Rightarrow> BuildStatus list" where
  "statusWritten (UpdatePackageCall pkg status buildLogs up err) = [status]"
| "statusWritten ev = []"

text \<open>A short name of a call, to read a sequence of calls at a glance.\<close>

fun brief :: "event \<Rightarrow> string" where
  "brief (UpdatePackageCall pkg status buildLogs up err) = ''updatePackage '' @ status"
| "brief (PackagesUpdateCall pkg err) = ''Packages.Update''"
| "brief (GetEnvironmentCall ns n err) = ''Environments.Get''"
| "brief (ListPodsCall ns) = ''pods''"
| "brief (SleepCall d) = ''sleep''"
| "brief (BuildPackageCall ns pkg err) = ''buildPackage''"
| "brief (ListFunctionsCall ns err) = ''Functions.List''"
| "brief (UpdateFunctionCall fn err) = ''Functions.Update '' @ Name (FnMeta fn)"

fun flowState :: "'w flow \<Rightarrow> 'w run" where
  "flowState (Returned st) = st"
| "flowState (Continues st) = st"

section \<open>A concrete watcher\<close>

text \<open>
  A small instance on which the functions above can be run: the outside has no state,
  every call succeeds, the back-off allows three attempts, one ready builder pod of the
  environment is listed.  The other instances change one answer of it.
\<close>

definition meta :: "string \<Rightarrow> string \<Rightarrow> string \<Rightarrow> (string \<times> string) list \<Rightarrow> ObjectMeta" where
  "meta ns n v ls = \<lparr>Namespace = ns, Name = n, ResourceVersion = v, Labels = ls\<rparr>"

definition pkgA :: Package where
  "pkgA = \<lparr>ObjectMeta = meta ''default'' ''hello'' ''2'' [],
           Spec = \<lparr>Environment = \<lparr>Namespace = ''default'', Name = ''python''\<rparr>,
                   Source = \<lparr>Type = ''url'', Literal = [], URL = ''http://src''\<rparr>,
                   Deployment = \<lparr>Type = [], Literal = [], URL = []\<rparr>\<rparr>,
           Status = \<lparr>BuildStatus = BuildStatusPending, BuildLog = [], LastUpdateTimestamp = 0\<rparr>\<rparr>"

definition envA :: Environment where
  "envA = \<lparr>EnvMeta = meta ''default'' ''python'' ''7'' []\<rparr>"

definition builderLabels :: "(string \<times> string) list" where
  "builderLabels = [(''envName'', ''python''), (''envNamespace'', ''default''),
                    (''envResourceVersion'', ''7'')]"

definition podReady :: Pod where
  "podReady = \<lparr>PodMeta = meta ''default'' ''builder-1'' ''11'' builderLabels,
               ContainerStatuses = [\<lparr>Ready = True\<rparr>, \<lparr>Ready = True\<rparr>]\<rparr>"

definition podNotReady :: Pod where
  "podNotReady = \<lparr>PodMeta = meta ''default'' ''builder-0'' ''10'' builderLabels,
                  ContainerStatuses = [\<lparr>Ready = True\<rparr>, \<lparr>Ready = False\<rparr>]\<rparr>"

definition podNoContainers :: Pod where
  "podNoContainers = \<lparr>PodMeta = meta ''default'' ''builder-2'' ''12'' builderLabels,
                      ContainerStatuses = []\<rparr>"

definition podOther :: Pod where
  "podOther = \<lparr>PodMeta = meta ''default'' ''other'' ''5'' [(''envName'', ''node'')],
               ContainerStatuses = [\<lparr>Ready = True\<rparr>]\<rparr>"

definition fnOf :: "string \<Rightarrow> string \<Rightarrow> Function" where
  "fnOf n v = \<lparr>FnMeta = meta ''default'' n ''1'' [],
              FnPackageRef = \<lparr>Namespace = ''default'', Name = ''hello'', ResourceVersion = v\<rparr>\<rparr>"

definition stored :: "Package \<Rightarrow> BuildStatus \<Rightarrow> string \<Rightarrow> Package" where
  "stored pkg status buildLogs =
     pkg\<lparr>Status := \<lparr>BuildStatus = status, BuildLog = buildLogs, LastUpdateTimestamp = 1\<rparr>\<rparr>"

definition watcherA :: "(unit, nat) packageWatcher" where
  "watcherA =
     \<lparr>updatePackage = (\<lambda>pkg status buildLogs up w. (Inr (stored pkg status buildLogs), w)),
      packagesUpdate = (\<lambda>pkg w. (Inr pkg, w)),
      environmentsGet = (\<lambda>ns n w. ((envA, None), w)),
      podInformerList = (\<lambda>ns w. ([podOther, podReady], w)),
      buildPackage = (\<lambda>ns url pkg w. ((\<lparr>ArchiveDownloadUrl = ''http://deploy''\<rparr>, ''built'', None), w)),
      functionsList = (\<lambda>ns w. (([fnOf ''f1'' ''1'', fnOf ''f2'' ''1''], None), w)),
      functionsUpdate = (\<lambda>fn w. (None, w)),
      timeNow = (\<lambda>w. 1),
      GetBuilderNS = (\<lambda>ns. ns),
      storageSvcUrl = ''http://storagesvc'',
      NewDefaultBackOff = 0,
      NextExists = (\<lambda>b. b < 3),
      GetNext = (\<lambda>b. (500 * 2 ^ b, Suc b)),
      GetCurrentBackoffDuration = (\<lambda>b. 500 * 2 ^ b),
      IsEmpty = (\<lambda>a. Literal a = [] \<and> URL a = []),
      LABEL_ENV_NAME = ''envName'',
      LABEL_ENV_NAMESPACE = ''envNamespace'',
      LABEL_ENV_RESOURCEVERSION = ''envResourceVersion'',
      quoteQ = (\<lambda>s. [CHR 0x22] @ s @ [CHR 0x22])\<rparr>"

definition watcherConflict :: "(unit, nat) packageWatcher" where
  "watcherConflict =
     watcherA\<lparr>updatePackage := (\<lambda>pkg status buildLogs up w. (Inl (OtherError ''conflict''), w))\<rparr>"

definition emptyEnv :: Environment where
  "emptyEnv = \<lparr>EnvMeta = meta [] [] [] []\<rparr>"

definition watcherEnvError :: "(unit, nat) packageWatcher" where
  "watcherEnvError =
     watcherA\<lparr>environmentsGet := (\<lambda>ns n w. ((emptyEnv, Some (OtherError ''etcd timeout'')), w))\<rparr>"

definition watcherEnvMissing :: "(unit, nat) packageWatcher" where
  "watcherEnvMissing =
     watcherA\<lparr>environmentsGet := (\<lambda>ns n w. ((emptyEnv, Some (NotFoundError ''not found'')), w))\<rparr>"

definition watcherNoBuilder :: "(unit, nat) packageWatcher" where
  "watcherNoBuilder = watcherA\<lparr>podInformerList := (\<lambda>ns w. ([podOther, podNotReady], w))\<rparr>"

definition watcherShadowed :: "(unit, nat) packageWatcher" where
  "watcherShadowed = watcherA\<lparr>podInformerList := (\<lambda>ns w. ([podNotReady, podReady], w))\<rparr>"

definition watcherNoContainersLate :: "(unit, nat) packageWatcher" where
  "watcherNoContainersLate =
     watcherA\<lparr>podInformerList := (\<lambda>ns w. ([podNotReady, podNoContainers], w))\<rparr>"

definition watcherNoContainers :: "(unit, nat) packageWatcher" where
  "watcherNoContainers = watcherA\<lparr>podInformerList := (\<lambda>ns w. ([podOther, podNoContainers], w))\<rparr>"

definition watcherListFails :: "(unit, nat) packageWatcher" where
  "watcherListFails =
     watcherA\<lparr>functionsList := (\<lambda>ns w. (([], Some (OtherError ''list refused'')), w))\<rparr>"


definition pkgV2 :: Package where
  "pkgV2 = stored pkgA BuildStatusRunning []"


definition pkgUnset :: Package where
  "pkgUnset = pkgA\<lparr>Status := \<lparr>BuildStatus = [], BuildLog = [], LastUpdateTimestamp = 0\<rparr>\<rparr>"

definition pkgOld :: Package where
  "pkgOld = pkgA\<lparr>ObjectMeta := meta ''default'' ''hello'' ''1'' []\<rparr>"

definition keyOf :: "Package \<Rightarrow> string" where
  "keyOf pkg = buildCacheKey (ObjectMeta pkg)"

text \<open>
  The property the steps of the watcher keep: the runs in flight have pairwise
  different keys, and these keys are the keys in the cache.
\<close>

definition guardInv :: "'w system \<Rightarrow> bool" where
  "guardInv s \<longleftrightarrow>
     distinct (map keyOf (goroutines s)) \<and> dom (buildCache s) = set (map keyOf (goroutines s))"

section \<open>What the calls record\<close>

lemma callUpdatePackage_trace:
  "callUpdatePackage pkgw pkg status logs up (w, tr) = (r, st') \<Longrightarrow>
     snd st' = tr @ [UpdatePackageCall pkg status logs up (errorOf r)] \<and>
     (r, fst st') = updatePackage pkgw pkg status logs up w"
  by (auto simp: callUpdatePackage_def split: prod.splits)

lemma callFunctionsUpdate_trace:
  "callFunctionsUpdate pkgw fn (w, tr) = (err, st') \<Longrightarrow>
     snd st' = tr @ [UpdateFunctionCall fn err] \<and> (err, fst st') = functionsUpdate pkgw fn w"
  by (auto simp: callFunctionsUpdate_def split: prod.splits)

lemma updateFunctions_Continues:
  "updateFunctions pkgw pkg buildLogs items (w, tr) = Continues st' \<Longrightarrow>
     snd st' = tr @ map (\<lambda>fn. UpdateFunctionCall (repoint pkg fn) None) (filter (staleRef pkg) items)"
proof (induction items arbitrary: w tr)
  case Nil
  then show ?case by auto
next
  case (Cons fn items)
  show ?case
  proof (cases "staleRef pkg fn")
    case False
    with Cons.prems have "updateFunctions pkgw pkg buildLogs items (w, tr) = Continues st'" by simp
    from Cons.IH [OF this] False show ?thesis by simp
  next
    case True
    obtain err w1 tr1 where c: "callFunctionsUpdate pkgw (repoint pkg fn) (w, tr) = (err, (w1, tr1))"
      by (metis surj_pair)
    from callFunctionsUpdate_trace [OF c]
    have tr1: "tr1 = tr @ [UpdateFunctionCall (repoint pkg fn) err]" by simp
    show ?thesis
    proof (cases err)
      case None
      with Cons.prems True c have "updateFunctions pkgw pkg buildLogs items (w1, tr1) = Continues st'" by simp
      from Cons.IH [OF this] show ?thesis
        using True None tr1 by simp
    next
      case (Some e)
      with Cons.prems True c show ?thesis by simp
    qed
  qed
qed

lemma updateFunctions_Returned:
  "updateFunctions pkgw pkg buildLogs items (w, tr) = Returned st' \<Longrightarrow>
     \<exists>before fn after err r.
        filter (staleRef pkg) items = before @ fn # after \<and>
        snd st' = tr @ map (\<lambda>fn. UpdateFunctionCall (repoint pkg fn) None) before
                     @ [UpdateFunctionCall (repoint pkg fn) (Some err),
                        UpdatePackageCall pkg BuildStatusFailed (updateFailedLog buildLogs err) None r]"
proof (induction items arbitrary: w tr)
  case Nil
  then show ?case by auto
next
  case (Cons fn items)
  show ?case
  proof (cases "staleRef pkg fn")
    case False
    with Cons.prems have "updateFunctions pkgw pkg buildLogs items (w, tr) = Returned st'" by simp
    from Cons.IH [OF this] False show ?thesis by simp
  next
    case True
    obtain err w1 tr1 where c: "callFunctionsUpdate pkgw (repoint pkg fn) (w, tr) = (err, (w1, tr1))"
      by (metis surj_pair)
    from callFunctionsUpdate_trace [OF c]
    have tr1: "tr1 = tr @ [UpdateFunctionCall (repoint pkg fn) err]" by simp
    show ?thesis
    proof (cases err)
      case None
      with Cons.prems True c have "updateFunctions pkgw pkg buildLogs items (w1, tr1) = Returned st'" by simp
      from Cons.IH [OF this] obtain before fn' after err' r where
        f: "filter (staleRef pkg) items = before @ fn' # after" and
        t: "snd st' = tr1 @ map (\<lambda>fn. UpdateFunctionCall (repoint pkg fn) None) before
                     @ [UpdateFunctionCall (repoint pkg fn') (Some err'),
                        UpdatePackageCall pkg BuildStatusFailed (updateFailedLog buildLogs err') None r]"
        by blast
      have "filter (staleRef pkg) (fn # items) = (fn # before) @ fn' # after"
        using True f by simp
      moreover have "snd st' = tr @ map (\<lambda>fn. UpdateFunctionCall (repoint pkg fn) None) (fn # before)
                     @ [UpdateFunctionCall (repoint pkg fn') (Some err'),
                        UpdatePackageCall pkg BuildStatusFailed (updateFailedLog buildLogs err') None r]"
        using t tr1 None by simp
      ultimately show ?thesis by blast
    next
      case (Some e)
      obtain r st2 where u: "callUpdatePackage pkgw pkg BuildStatusFailed (updateFailedLog buildLogs e) None (w1, tr1) = (r, st2)"
        by (metis surj_pair)
      from Cons.prems True c Some u have st': "st' = st2" by simp
      have "filter (staleRef pkg) (fn # items) = [] @ fn # filter (staleRef pkg) items"
        using True by simp
      moreover have "snd st' = tr @ map (\<lambda>fn. UpdateFunctionCall (repoint pkg fn) None) []
                     @ [UpdateFunctionCall (repoint pkg fn) (Some e),
                        UpdatePackageCall pkg BuildStatusFailed (updateFailedLog buildLogs e) None (errorOf r)]"
        using callUpdatePackage_trace [OF u] st' tr1 Some by simp
      ultimately show ?thesis by blast
    qed
  qed
qed

lemma foldl_ready: "foldl (\<lambda>r cStatus. r \<and> Ready cStatus) b cs \<longleftrightarrow> b \<and> list_all Ready cs"
  by (induction cs arbitrary: b) auto

lemma podIsReady_iff: "podIsReady pod \<longleftrightarrow> list_all Ready (ContainerStatuses pod)"
  by (simp add: podIsReady_def foldl_ready)

lemma scanPods_find:
  "scanPods pkgw pkg env builderNs bo items st =
     (case find (\<lambda>pod. \<not> nonMatching pkgw env builderNs pod) items of
        None \<Rightarrow> Continues st
      | Some pod \<Rightarrow>
          if podIsReady pod then Returned (buildAndUpdate pkgw builderNs pkg st)
          else Continues (sleepFor (GetCurrentBackoffDuration pkgw bo) st))"
  by (induction items) auto

lemma callPodInformerList_trace:
  "callPodInformerList pkgw ns (w, tr) = (items, st') \<Longrightarrow>
     snd st' = tr @ [ListPodsCall ns] \<and> (items, fst st') = podInformerList pkgw ns w"
  by (auto simp: callPodInformerList_def split: prod.splits)

lemma healthCheck_shape:
  assumes "healthCheck pkgw pkg env err builderNs bo st = Some fl"
  shows "\<exists>polls st1. list_all isPollEvent polls \<and> snd st1 = snd st @ polls \<and>
           (fl = Continues st1 \<or> (err \<noteq> None \<and> fl = Returned st1) \<or>
            (err = None \<and> fl = Returned (buildAndUpdate pkgw builderNs pkg st1) \<and>
               (\<exists>w pod. pod \<in> set (fst (podInformerList pkgw builderNs w)) \<and>
                    \<not> nonMatching pkgw env builderNs pod \<and> podIsReady pod)))"
  using assms
proof (induction pkgw pkg env err builderNs bo st fl
    rule: healthCheck.raw_induct [rotated 1, consumes 1, case_names iter])
  case (iter hc pkgw pkg env err builderNs bo st fl)
  show ?case
  proof (cases "NextExists pkgw bo")
    case False
    with iter(2) have "fl = Continues st" by simp
    then show ?thesis by (intro exI [of _ "[]"] exI [of _ st]) simp
  next
    case True
    obtain items st1 where l: "callPodInformerList pkgw builderNs st = (items, st1)"
      by (metis surj_pair)
    from callPodInformerList_trace [of pkgw builderNs "fst st" "snd st" items st1] l
    have t1: "snd st1 = snd st @ [ListPodsCall builderNs]"
      and it: "items = fst (podInformerList pkgw builderNs (fst st))"
      by (auto dest: arg_cong [where f = fst])
    have step: "?thesis"
      if h: "hc pkgw pkg env err builderNs bo' st2 = Some fl"
        and pre: "snd st2 = snd st @ pre" "list_all isPollEvent pre"
      for bo' st2 pre
    proof -
      from iter(1) [OF h] obtain polls st3 where
        p: "list_all isPollEvent polls" "snd st3 = snd st2 @ polls" and
        d: "fl = Continues st3 \<or> (err \<noteq> None \<and> fl = Returned st3) \<or>
            (err = None \<and> fl = Returned (buildAndUpdate pkgw builderNs pkg st3) \<and>
               (\<exists>w pod. pod \<in> set (fst (podInformerList pkgw builderNs w)) \<and>
                    \<not> nonMatching pkgw env builderNs pod \<and> podIsReady pod))"
        by blast
      from p pre have "list_all isPollEvent (pre @ polls)" "snd st3 = snd st @ (pre @ polls)"
        by simp_all
      with d show ?thesis by blast
    qed
    show ?thesis
    proof (cases "err \<noteq> None")
      case True
      with iter(2) \<open>NextExists pkgw bo\<close> l have "fl = Returned st1" by simp
      with True t1 show ?thesis
        by (intro exI [of _ "[ListPodsCall builderNs]"] exI [of _ st1]) simp
    next
      case noerr: False
      show ?thesis
      proof (cases "length items = 0")
        case True
        with iter(2) \<open>NextExists pkgw bo\<close> l noerr
        have "hc pkgw pkg env err builderNs bo (sleepFor (GetCurrentBackoffDuration pkgw bo) st1) = Some fl"
          by simp
        then show ?thesis
          by (rule step [where pre = "[ListPodsCall builderNs, SleepCall (GetCurrentBackoffDuration pkgw bo)]"])
             (simp_all add: sleepFor_def t1)
      next
        case nonempty: False
        obtain d bo' where g: "GetNext pkgw bo = (d, bo')" by (metis surj_pair)
        show ?thesis
        proof (cases "find (\<lambda>pod. \<not> nonMatching pkgw env builderNs pod) items")
          case None
          then have "scanPods pkgw pkg env builderNs bo items st1 = Continues st1"
            by (simp add: scanPods_find)
          with iter(2) \<open>NextExists pkgw bo\<close> l noerr nonempty g
          have "hc pkgw pkg env err builderNs bo' (sleepFor d st1) = Some fl" by simp
          then show ?thesis
            by (rule step [where pre = "[ListPodsCall builderNs, SleepCall d]"])
               (simp_all add: sleepFor_def t1)
        next
          case (Some pod)
          then have m: "pod \<in> set items" "\<not> nonMatching pkgw env builderNs pod"
            by (auto simp: find_Some_iff)
          show ?thesis
          proof (cases "podIsReady pod")
            case True
            with Some have "scanPods pkgw pkg env builderNs bo items st1
                              = Returned (buildAndUpdate pkgw builderNs pkg st1)"
              by (simp add: scanPods_find)
            with iter(2) \<open>NextExists pkgw bo\<close> l noerr nonempty
            have "fl = Returned (buildAndUpdate pkgw builderNs pkg st1)" by simp
            moreover from m it True
            have "\<exists>w pod. pod \<in> set (fst (podInformerList pkgw builderNs w)) \<and>
                    \<not> nonMatching pkgw env builderNs pod \<and> podIsReady pod" by blast
            ultimately show ?thesis using noerr t1
              by (intro exI [of _ "[ListPodsCall builderNs]"] exI [of _ st1]) simp
          next
            case False
            with Some have "scanPods pkgw pkg env builderNs bo items st1
                              = Continues (sleepFor (GetCurrentBackoffDuration pkgw bo) st1)"
              by (simp add: scanPods_find)
            with iter(2) \<open>NextExists pkgw bo\<close> l noerr nonempty g
            have "hc pkgw pkg env err builderNs bo'
                    (sleepFor d (sleepFor (GetCurrentBackoffDuration pkgw bo) st1)) = Some fl"
              by simp
            then show ?thesis
              by (rule step [where pre = "[ListPodsCall builderNs,
                      SleepCall (GetCurrentBackoffDuration pkgw bo), SleepCall d]"])
                 (simp_all add: sleepFor_def t1)
          qed
        qed
      qed
    qed
  qed
qed

lemma updateFunctions_no_build:
  "\<exists>evs. snd (flowState (updateFunctions pkgw pkg buildLogs items st)) = snd st @ evs \<and>
         \<not> list_ex isBuildCall evs"
proof (cases "updateFunctions pkgw pkg buildLogs items (fst st, snd st)")
  case (Returned st')
  from updateFunctions_Returned [OF this] show ?thesis
    using Returned by (auto simp: list_ex_iff)
next
  case (Continues st')
  from updateFunctions_Continues [OF this] show ?thesis
    using Continues by (auto simp: list_ex_iff)
qed

lemma callUpdatePackage_snd:
  "snd (snd (callUpdatePackage pkgw pkg status logs up st)) =
     snd st @ [UpdatePackageCall pkg status logs up
                 (errorOf (fst (callUpdatePackage pkgw pkg status logs up st)))]"
  by (simp add: callUpdatePackage_def split: prod.splits)

lemma succeed_no_build:
  "\<exists>evs. snd (case updateFunctions pkgw pkg logs2 items st3 of
                  Returned st4 \<Rightarrow> st4
                | Continues st4 \<Rightarrow>
                    (case callUpdatePackage pkgw pkg BuildStatusSucceeded logs2 (Some uploadResp) st4 of
                       (Inl e, st5) \<Rightarrow> snd (callUpdatePackage pkgw pkg BuildStatusFailed logs2 None st5)
                     | (Inr p, st5) \<Rightarrow> st5)) = snd st3 @ evs \<and> \<not> list_ex isBuildCall evs"
proof -
  from updateFunctions_no_build [of pkgw pkg logs2 items st3]
  obtain evs4 where t4: "snd (flowState (updateFunctions pkgw pkg logs2 items st3)) = snd st3 @ evs4"
    "\<not> list_ex isBuildCall evs4" by blast
  show ?thesis
  proof (cases "updateFunctions pkgw pkg logs2 items st3")
    case (Returned st4)
    with t4 show ?thesis by simp
  next
    case (Continues st4)
    obtain r st5 where u: "callUpdatePackage pkgw pkg BuildStatusSucceeded logs2 (Some uploadResp) st4 = (r, st5)"
      by (metis surj_pair)
    from u have t5: "snd st5 = snd st4 @ [UpdatePackageCall pkg BuildStatusSucceeded logs2 (Some uploadResp) (errorOf r)]"
      using callUpdatePackage_snd [of pkgw pkg BuildStatusSucceeded logs2 "Some uploadResp" st4] by simp
    show ?thesis
    proof (cases r)
      case (Inl e)
      with t4 t5 Continues u show ?thesis by (simp add: callUpdatePackage_snd)
    next
      case (Inr p)
      with t4 t5 Continues u show ?thesis by simp
    qed
  qed
qed

lemma buildAndUpdate_calls:
  "\<exists>err evs. snd (buildAndUpdate pkgw builderNs pkg st) = snd st @ BuildPackageCall builderNs pkg err # evs \<and>
         \<not> list_ex isBuildCall evs"
proof -
  obtain uploadResp buildLogs err st1 where
    b: "callBuildPackage pkgw builderNs pkg st = ((uploadResp, buildLogs, err), st1)"
    by (metis surj_pair)
  then have t1: "snd st1 = snd st @ [BuildPackageCall builderNs pkg err]"
    by (auto simp: callBuildPackage_def split: prod.splits)
  show ?thesis
  proof (cases err)
    case (Some e)
    with b have "buildAndUpdate pkgw builderNs pkg st
                   = snd (callUpdatePackage pkgw pkg BuildStatusFailed buildLogs None st1)"
      by (simp add: buildAndUpdate_def)
    then show ?thesis using t1 by (simp add: callUpdatePackage_snd)
  next
    case None
    obtain items lerr st2 where
      l: "callFunctionsList pkgw (Namespace (ObjectMeta pkg)) st1 = ((items, lerr), st2)"
      by (metis surj_pair)
    then have t2: "snd st2 = snd st1 @ [ListFunctionsCall (Namespace (ObjectMeta pkg)) lerr]"
      by (auto simp: callFunctionsList_def split: prod.splits)
    have "\<exists>evs. snd (buildAndUpdate pkgw builderNs pkg st) = snd st2 @ evs \<and> \<not> list_ex isBuildCall evs"
    proof (cases lerr)
      case None
      from succeed_no_build [where pkgw = pkgw and pkg = pkg and ?logs2.0 = buildLogs and items = items
             and ?st3.0 = st2 and uploadResp = uploadResp]
      show ?thesis using b \<open>err = None\<close> l None by (simp add: buildAndUpdate_def)
    next
      case (Some e)
      from succeed_no_build [where pkgw = pkgw and pkg = pkg and ?logs2.0 = "listFailedLog buildLogs e"
             and items = items and uploadResp = uploadResp and ?st3.0 =
             "snd (callUpdatePackage pkgw pkg BuildStatusFailed (listFailedLog buildLogs e) None st2)"]
      obtain evs where "snd (buildAndUpdate pkgw builderNs pkg st)
           = snd (snd (callUpdatePackage pkgw pkg BuildStatusFailed (listFailedLog buildLogs e) None st2)) @ evs"
         "\<not> list_ex isBuildCall evs"
        using b \<open>err = None\<close> l Some by (auto simp add: buildAndUpdate_def Let_def)
      then show ?thesis by (simp add: callUpdatePackage_snd)
    qed
    with t2 t1 show ?thesis by (auto simp: list_ex_iff)
  qed
qed

lemma poll_events_no_build: "list_all isPollEvent polls \<Longrightarrow> filter isBuildCall polls = []"
proof (induction polls)
  case Nil
  show ?case by simp
next
  case (Cons ev polls)
  then show ?case by (cases ev) simp_all
qed

lemma poll_events_no_status: "list_all isPollEvent polls \<Longrightarrow> concat (map statusWritten polls) = []"
proof (induction polls)
  case Nil
  show ?case by simp
next
  case (Cons ev polls)
  then show ?case by (cases ev) simp_all
qed

lemma callEnvironmentsGet_trace:
  "callEnvironmentsGet pkgw ns n (w, tr) = ((env, err), st') \<Longrightarrow>
     snd st' = tr @ [GetEnvironmentCall ns n err] \<and> ((env, err), fst st') = environmentsGet pkgw ns n w"
  by (auto simp: callEnvironmentsGet_def split: prod.splits)

text \<open>What a run of the body that ends has done, path by path.\<close>

lemma buildBody_paths:
  assumes "buildBody pkgw srcpkg (w, tr) = Some st'"
  shows "(\<exists>e w1. updatePackage pkgw srcpkg BuildStatusRunning [] None w = (Inl e, w1) \<and>
            st' = (w1, tr @ [UpdatePackageCall srcpkg BuildStatusRunning [] None (Some e)])) \<or>
         (\<exists>pkg w1 env err w2 tr2.
            updatePackage pkgw srcpkg BuildStatusRunning [] None w = (Inr pkg, w1) \<and>
            environmentsGet pkgw (Namespace (Environment (Spec pkg))) (Name (Environment (Spec pkg))) w1
              = ((env, err), w2) \<and>
            tr2 = tr @ [UpdatePackageCall srcpkg BuildStatusRunning [] None None,
                        GetEnvironmentCall (Namespace (Environment (Spec pkg)))
                          (Name (Environment (Spec pkg))) err] \<and>
            (if IsNotFound err then
               st' = snd (callUpdatePackage pkgw pkg BuildStatusFailed
                            (''environment does not exist'' @ '': ''
                               @ quoteQ pkgw (Name (Environment (Spec pkg)))) None (w2, tr2))
             else
               (\<exists>fl. healthCheck pkgw pkg env err (GetBuilderNS pkgw (Namespace (EnvMeta env)))
                         (NewDefaultBackOff pkgw) (w2, tr2) = Some fl \<and>
                     (fl = Returned st' \<or>
                      (\<exists>st3. fl = Continues st3 \<and>
                         st' = snd (callUpdatePackage pkgw pkg BuildStatusFailed
                                ''Build timeout due to environment builder not ready'' None st3))))))"
proof -
  obtain r st1 where u: "callUpdatePackage pkgw srcpkg BuildStatusRunning [] None (w, tr) = (r, st1)"
    by (metis surj_pair)
  from callUpdatePackage_trace [OF u]
  have t1: "snd st1 = tr @ [UpdatePackageCall srcpkg BuildStatusRunning [] None (errorOf r)]"
    and w1: "updatePackage pkgw srcpkg BuildStatusRunning [] None w = (r, fst st1)" by simp_all
  show ?thesis
  proof (cases r)
    case (Inl e)
    with assms u have "st' = st1" by (simp add: buildBody_def)
    with Inl t1 w1 show ?thesis by (cases st1) auto
  next
    case (Inr pkg)
    obtain env err st2 where g: "callEnvironmentsGet pkgw (Namespace (Environment (Spec pkg)))
        (Name (Environment (Spec pkg))) (fst st1, snd st1) = ((env, err), st2)"
      by (metis surj_pair)
    from callEnvironmentsGet_trace [OF g]
    have t2: "snd st2 = snd st1 @ [GetEnvironmentCall (Namespace (Environment (Spec pkg)))
                          (Name (Environment (Spec pkg))) err]"
      and w2: "environmentsGet pkgw (Namespace (Environment (Spec pkg)))
                 (Name (Environment (Spec pkg))) (fst st1) = ((env, err), fst st2)" by simp_all
    have st2: "st2 = (fst st2, tr @ [UpdatePackageCall srcpkg BuildStatusRunning [] None None,
                        GetEnvironmentCall (Namespace (Environment (Spec pkg)))
                          (Name (Environment (Spec pkg))) err])"
      using t1 t2 Inr by (cases st2) simp
    have "if IsNotFound err then
               st' = snd (callUpdatePackage pkgw pkg BuildStatusFailed
                            (''environment does not exist'' @ '': ''
                               @ quoteQ pkgw (Name (Environment (Spec pkg)))) None st2)
             else
               (\<exists>fl. healthCheck pkgw pkg env err (GetBuilderNS pkgw (Namespace (EnvMeta env)))
                         (NewDefaultBackOff pkgw) st2 = Some fl \<and>
                     (fl = Returned st' \<or>
                      (\<exists>st3. fl = Continues st3 \<and>
                         st' = snd (callUpdatePackage pkgw pkg BuildStatusFailed
                                ''Build timeout due to environment builder not ready'' None st3))))"
      using assms u Inr g
      by (auto simp: buildBody_def split: option.splits flow.splits if_splits)
    with st2 have "if IsNotFound err then
               st' = snd (callUpdatePackage pkgw pkg BuildStatusFailed
                            (''environment does not exist'' @ '': ''
                               @ quoteQ pkgw (Name (Environment (Spec pkg)))) None (fst st2, tr @ [UpdatePackageCall srcpkg BuildStatusRunning [] None None,
                        GetEnvironmentCall (Namespace (Environment (Spec pkg)))
                          (Name (Environment (Spec pkg))) err]))
             else
               (\<exists>fl. healthCheck pkgw pkg env err (GetBuilderNS pkgw (Namespace (EnvMeta env)))
                         (NewDefaultBackOff pkgw) (fst st2, tr @ [UpdatePackageCall srcpkg BuildStatusRunning [] None None,
                        GetEnvironmentCall (Namespace (Environment (Spec pkg)))
                          (Name (Environment (Spec pkg))) err]) = Some fl \<and>
                     (fl = Returned st' \<or>
                      (\<exists>st3. fl = Continues st3 \<and>
                         st' = snd (callUpdatePackage pkgw pkg BuildStatusFailed
                                ''Build timeout due to environment builder not ready'' None st3))))"
      by metis
    with Inr w1 w2 show ?thesis by blast
  qed
qed

section \<open>The initial status\<close>

lemma BuildStatus_distinct:
  "BuildStatusNone \<noteq> BuildStatusPending" "BuildStatusNone \<noteq> BuildStatusFailed"
  "BuildStatusPending \<noteq> BuildStatusFailed" "BuildStatusPending \<noteq> BuildStatusRunning"
  "BuildStatusNone \<noteq> []" "BuildStatusPending \<noteq> []" "BuildStatusFailed \<noteq> []"
  "BuildStatusRunning \<noteq> []" "BuildStatusSucceeded \<noteq> []"
  by (simp_all add: BuildStatusNone_def BuildStatusPending_def BuildStatusFailed_def
      BuildStatusRunning_def BuildStatusSucceeded_def)

text \<open>
  Claim C2.  The resolver of the initial status gives the package the status None when
  the deployment archive is not empty, whatever the source archive is; otherwise Pending
  when the source archive is not empty; otherwise Failed with the log
  "Both deploy and source archive are empty".  The status it gives is never the empty
  one, and the package with this status is what the one call to the store writes.
\<close>

theorem setInitialBuildStatus_resolves:
  "(\<not> IsEmpty pkgw (Deployment (Spec pkg)) \<longrightarrow>
      BuildStatus (Status (initialStatus pkgw now pkg)) = BuildStatusNone) \<and>
   (IsEmpty pkgw (Deployment (Spec pkg)) \<and> \<not> IsEmpty pkgw (Source (Spec pkg)) \<longrightarrow>
      BuildStatus (Status (initialStatus pkgw now pkg)) = BuildStatusPending) \<and>
   (IsEmpty pkgw (Deployment (Spec pkg)) \<and> IsEmpty pkgw (Source (Spec pkg)) \<longrightarrow>
      BuildStatus (Status (initialStatus pkgw now pkg)) = BuildStatusFailed \<and>
      BuildLog (Status (initialStatus pkgw now pkg)) = ''Both deploy and source archive are empty'') \<and>
   BuildStatus (Status (initialStatus pkgw now pkg)) \<noteq> [] \<and>
   snd (snd (setInitialBuildStatus pkgw pkg (w, tr))) =
     tr @ [PackagesUpdateCall (initialStatus pkgw (timeNow pkgw w) pkg)
             (errorOf (fst (packagesUpdate pkgw (initialStatus pkgw (timeNow pkgw w) pkg) w)))]"
proof -
  have written: "snd (snd (setInitialBuildStatus pkgw pkg (w, tr))) =
     tr @ [PackagesUpdateCall (initialStatus pkgw (timeNow pkgw w) pkg)
             (errorOf (fst (packagesUpdate pkgw (initialStatus pkgw (timeNow pkgw w) pkg) w)))]"
    by (simp add: setInitialBuildStatus_def callPackagesUpdate_def split: prod.splits)
  have chosen: "BuildStatus (Status (initialStatus pkgw now pkg)) \<noteq> []"
    by (simp add: initialStatus_def Let_def BuildStatus_distinct)
  show ?thesis
    using written chosen by (simp add: initialStatus_def Let_def)
qed

theorem setInitialBuildStatus_resolves_witness:
  "\<not> IsEmpty watcherA (Deployment (Spec (pkgA\<lparr>Spec := (Spec pkgA)\<lparr>Deployment := \<lparr>Type = [], Literal = [], URL = ''http://d''\<rparr>\<rparr>\<rparr>))) \<and>
   BuildStatus (Status (initialStatus watcherA 5
      (pkgA\<lparr>Spec := (Spec pkgA)\<lparr>Deployment := \<lparr>Type = [], Literal = [], URL = ''http://d''\<rparr>\<rparr>\<rparr>))) = BuildStatusNone \<and>
   IsEmpty watcherA (Deployment (Spec pkgA)) \<and> \<not> IsEmpty watcherA (Source (Spec pkgA)) \<and>
   BuildStatus (Status (initialStatus watcherA 5 pkgA)) = BuildStatusPending \<and>
   IsEmpty watcherA (Deployment (Spec (pkgA\<lparr>Spec := (Spec pkgA)\<lparr>Source := \<lparr>Type = [], Literal = [], URL = []\<rparr>\<rparr>\<rparr>))) \<and>
   IsEmpty watcherA (Source (Spec (pkgA\<lparr>Spec := (Spec pkgA)\<lparr>Source := \<lparr>Type = [], Literal = [], URL = []\<rparr>\<rparr>\<rparr>))) \<and>
   BuildStatus (Status (initialStatus watcherA 5
      (pkgA\<lparr>Spec := (Spec pkgA)\<lparr>Source := \<lparr>Type = [], Literal = [], URL = []\<rparr>\<rparr>\<rparr>))) = BuildStatusFailed \<and>
   BuildLog (Status (initialStatus watcherA 5
      (pkgA\<lparr>Spec := (Spec pkgA)\<lparr>Source := \<lparr>Type = [], Literal = [], URL = []\<rparr>\<rparr>\<rparr>)))
     = ''Both deploy and source archive are empty''"
  using setInitialBuildStatus_resolves
          [of watcherA "pkgA\<lparr>Spec := (Spec pkgA)\<lparr>Deployment := \<lparr>Type = [], Literal = [], URL = ''http://d''\<rparr>\<rparr>\<rparr>" 5 "()" "[]"]
        setInitialBuildStatus_resolves [of watcherA pkgA 5 "()" "[]"]
        setInitialBuildStatus_resolves
          [of watcherA "pkgA\<lparr>Spec := (Spec pkgA)\<lparr>Source := \<lparr>Type = [], Literal = [], URL = []\<rparr>\<rparr>\<rparr>" 5 "()" "[]"]
  by (simp add: watcherA_def pkgA_def)

section \<open>The first call of a run\<close>

lemma buildBody_first_call:
  assumes "buildBody pkgw srcpkg (w, tr) = Some st'"
  shows "\<exists>r evs. snd st' = tr @ UpdatePackageCall srcpkg BuildStatusRunning [] None r # evs"
proof -
  from buildBody_paths [OF assms] show ?thesis
  proof (elim disjE exE conjE)
    fix e w1
    assume "st' = (w1, tr @ [UpdatePackageCall srcpkg BuildStatusRunning [] None (Some e)])"
    then show ?thesis by simp
  next
    fix pkg w1 env err w2 tr2
    assume tr2: "tr2 = tr @ [UpdatePackageCall srcpkg BuildStatusRunning [] None None,
                        GetEnvironmentCall (Namespace (Environment (Spec pkg)))
                          (Name (Environment (Spec pkg))) err]"
      and c: "if IsNotFound err then
               st' = snd (callUpdatePackage pkgw pkg BuildStatusFailed
                            (''environment does not exist'' @ '': ''
                               @ quoteQ pkgw (Name (Environment (Spec pkg)))) None (w2, tr2))
             else
               (\<exists>fl. healthCheck pkgw pkg env err (GetBuilderNS pkgw (Namespace (EnvMeta env)))
                         (NewDefaultBackOff pkgw) (w2, tr2) = Some fl \<and>
                     (fl = Returned st' \<or>
                      (\<exists>st3. fl = Continues st3 \<and>
                         st' = snd (callUpdatePackage pkgw pkg BuildStatusFailed
                                ''Build timeout due to environment builder not ready'' None st3))))"
    have "\<exists>evs. snd st' = tr2 @ evs"
    proof (cases "IsNotFound err")
      case True
      with c show ?thesis by (simp add: callUpdatePackage_snd)
    next
      case False
      with c obtain fl where h: "healthCheck pkgw pkg env err (GetBuilderNS pkgw (Namespace (EnvMeta env)))
                         (NewDefaultBackOff pkgw) (w2, tr2) = Some fl"
        and f: "fl = Returned st' \<or>
                      (\<exists>st3. fl = Continues st3 \<and>
                         st' = snd (callUpdatePackage pkgw pkg BuildStatusFailed
                                ''Build timeout due to environment builder not ready'' None st3))"
        by auto
      from healthCheck_shape [OF h] obtain polls st1 where
        p: "snd st1 = tr2 @ polls" and
        d: "fl = Continues st1 \<or> (err \<noteq> None \<and> fl = Returned st1) \<or>
            (err = None \<and> fl = Returned (buildAndUpdate pkgw (GetBuilderNS pkgw (Namespace (EnvMeta env))) pkg st1))"
        by auto
      from buildAndUpdate_calls [of pkgw "GetBuilderNS pkgw (Namespace (EnvMeta env))" pkg st1]
      obtain berr evs where
        b: "snd (buildAndUpdate pkgw (GetBuilderNS pkgw (Namespace (EnvMeta env))) pkg st1)
              = snd st1 @ BuildPackageCall (GetBuilderNS pkgw (Namespace (EnvMeta env))) pkg berr # evs"
        by blast
      from d f p b show ?thesis
        by (auto simp: callUpdatePackage_snd)
    qed
    with tr2 show ?thesis by auto
  qed
qed

text \<open>
  Claim C7.  The first call of every run that ends is the update of the source package
  to Running with an empty log; and when this update fails the run ends there: it is
  the only call of the run (no fetch of the environment, no listing of pods, no build,
  no other status write), and the deferred function has removed the cache key.
\<close>

theorem build_stops_when_running_update_fails:
  "(buildBody pkgw srcpkg (w, tr) = Some st' \<longrightarrow>
      (\<exists>r evs. snd st' = tr @ UpdatePackageCall srcpkg BuildStatusRunning [] None r # evs)) \<and>
   (updatePackage pkgw srcpkg BuildStatusRunning [] None w = (Inl e, w1) \<longrightarrow>
      build pkgw srcpkg (c, (w, tr)) =
        Some (c(buildCacheKey (ObjectMeta srcpkg) := None),
              (w1, tr @ [UpdatePackageCall srcpkg BuildStatusRunning [] None (Some e)])))"
  using buildBody_first_call [of pkgw srcpkg w tr st']
  by (simp add: build_def buildBody_def callUpdatePackage_def cacheDelete_def)

theorem build_stops_when_running_update_fails_witness:
  "(\<exists>st'. buildBody watcherA pkgA ((), []) = Some st' \<and>
      (\<exists>r evs. snd st' = [] @ UpdatePackageCall pkgA BuildStatusRunning [] None r # evs)) \<and>
   updatePackage watcherConflict pkgA BuildStatusRunning [] None () = (Inl (OtherError ''conflict''), ()) \<and>
   build watcherConflict pkgA (Map.empty, ((), [])) =
     Some (Map.empty(buildCacheKey (ObjectMeta pkgA) := None),
           ((), [] @ [UpdatePackageCall pkgA BuildStatusRunning [] None (Some (OtherError ''conflict''))]))"
proof -
  have ends: "buildBody watcherA pkgA ((), []) \<noteq> None" by code_simp
  then obtain st' where s: "buildBody watcherA pkgA ((), []) = Some st'" by blast
  have u: "updatePackage watcherConflict pkgA BuildStatusRunning [] None () = (Inl (OtherError ''conflict''), ())"
    by (simp add: watcherConflict_def)
  from build_stops_when_running_update_fails [of watcherA pkgA "()" "[]" st']
       build_stops_when_running_update_fails
         [of watcherConflict pkgA "()" "[]" _ "OtherError ''conflict''" "()" Map.empty] s u
  show ?thesis by blast
qed

section \<open>A failed fetch of the environment\<close>

text \<open>
  Claim C9.  When the fetch of the environment returns an error that is not a
  not-found error, the run goes past the check: it resolves the builder namespace from
  the environment the fetch returned, creates the back-off and, when the back-off has an
  attempt, lists the pods of that namespace; there the error is seen and the run ends.
  It has made three calls: the update to Running, the one fetch and the one listing; no
  status Failed is written and the fetch is not repeated.  With a not-found error the
  run ends with the update to Failed and the log "environment does not exist: <name>".
\<close>

theorem build_after_environment_fetch_error:
  assumes "updatePackage pkgw srcpkg BuildStatusRunning [] None w = (Inr pkg, w1)"
    and "environmentsGet pkgw (Namespace (Environment (Spec pkg))) (Name (Environment (Spec pkg))) w1
           = ((env, Some e), w2)"
  shows "(\<not> IsNotFound (Some e) \<and> NextExists pkgw (NewDefaultBackOff pkgw) \<longrightarrow>
            buildBody pkgw srcpkg (w, tr) =
              Some (snd (podInformerList pkgw (GetBuilderNS pkgw (Namespace (EnvMeta env))) w2),
                    tr @ [UpdatePackageCall srcpkg BuildStatusRunning [] None None,
                          GetEnvironmentCall (Namespace (Environment (Spec pkg)))
                            (Name (Environment (Spec pkg))) (Some e),
                          ListPodsCall (GetBuilderNS pkgw (Namespace (EnvMeta env)))])) \<and>
         (IsNotFound (Some e) \<longrightarrow>
            (\<exists>w3 r. buildBody pkgw srcpkg (w, tr) =
              Some (w3,
                    tr @ [UpdatePackageCall srcpkg BuildStatusRunning [] None None,
                          GetEnvironmentCall (Namespace (Environment (Spec pkg)))
                            (Name (Environment (Spec pkg))) (Some e),
                          UpdatePackageCall pkg BuildStatusFailed
                            (''environment does not exist: '' @ quoteQ pkgw (Name (Environment (Spec pkg))))
                            None r])))"
proof (intro conjI impI)
  assume "\<not> IsNotFound (Some e) \<and> NextExists pkgw (NewDefaultBackOff pkgw)"
  then show "buildBody pkgw srcpkg (w, tr) =
              Some (snd (podInformerList pkgw (GetBuilderNS pkgw (Namespace (EnvMeta env))) w2),
                    tr @ [UpdatePackageCall srcpkg BuildStatusRunning [] None None,
                          GetEnvironmentCall (Namespace (Environment (Spec pkg)))
                            (Name (Environment (Spec pkg))) (Some e),
                          ListPodsCall (GetBuilderNS pkgw (Namespace (EnvMeta env)))])"
    using assms
    by (subst buildBody_def, subst healthCheck.simps)
       (simp add: callUpdatePackage_def callEnvironmentsGet_def callPodInformerList_def
          split: prod.splits)
next
  assume "IsNotFound (Some e)"
  then show "\<exists>w3 r. buildBody pkgw srcpkg (w, tr) =
              Some (w3,
                    tr @ [UpdatePackageCall srcpkg BuildStatusRunning [] None None,
                          GetEnvironmentCall (Namespace (Environment (Spec pkg)))
                            (Name (Environment (Spec pkg))) (Some e),
                          UpdatePackageCall pkg BuildStatusFailed
                            (''environment does not exist: '' @ quoteQ pkgw (Name (Environment (Spec pkg))))
                            None r])"
    using assms
    by (simp add: buildBody_def callUpdatePackage_def callEnvironmentsGet_def split: prod.splits)
qed

theorem build_after_environment_fetch_error_witness:
  "updatePackage watcherEnvError pkgA BuildStatusRunning [] None ()
      = (Inr (stored pkgA BuildStatusRunning []), ()) \<and>
   environmentsGet watcherEnvError ''default'' ''python'' ()
      = ((emptyEnv, Some (OtherError ''etcd timeout'')), ()) \<and>
   \<not> IsNotFound (Some (OtherError ''etcd timeout'')) \<and>
   NextExists watcherEnvError (NewDefaultBackOff watcherEnvError) \<and>
   buildBody watcherEnvError pkgA ((), []) =
     Some ((), [UpdatePackageCall pkgA BuildStatusRunning [] None None,
                GetEnvironmentCall ''default'' ''python'' (Some (OtherError ''etcd timeout'')),
                ListPodsCall []]) \<and>
   environmentsGet watcherEnvMissing ''default'' ''python'' ()
      = ((emptyEnv, Some (NotFoundError ''not found'')), ()) \<and>
   IsNotFound (Some (NotFoundError ''not found'')) \<and>
   (\<exists>r. buildBody watcherEnvMissing pkgA ((), []) =
     Some ((), [UpdatePackageCall pkgA BuildStatusRunning [] None None,
                GetEnvironmentCall ''default'' ''python'' (Some (NotFoundError ''not found'')),
                UpdatePackageCall (stored pkgA BuildStatusRunning []) BuildStatusFailed
                  (''environment does not exist: '' @ [CHR 0x22] @ ''python'' @ [CHR 0x22]) None r]))"
proof -
  have a: "updatePackage watcherEnvError pkgA BuildStatusRunning [] None ()
      = (Inr (stored pkgA BuildStatusRunning []), ())"
    by (simp add: watcherEnvError_def watcherA_def)
  have b: "environmentsGet watcherEnvError (Namespace (Environment (Spec (stored pkgA BuildStatusRunning []))))
             (Name (Environment (Spec (stored pkgA BuildStatusRunning [])))) ()
      = ((emptyEnv, Some (OtherError ''etcd timeout'')), ())"
    by (simp add: watcherEnvError_def watcherA_def)
  have a': "updatePackage watcherEnvMissing pkgA BuildStatusRunning [] None ()
      = (Inr (stored pkgA BuildStatusRunning []), ())"
    by (simp add: watcherEnvMissing_def watcherA_def)
  have b': "environmentsGet watcherEnvMissing (Namespace (Environment (Spec (stored pkgA BuildStatusRunning []))))
             (Name (Environment (Spec (stored pkgA BuildStatusRunning [])))) ()
      = ((emptyEnv, Some (NotFoundError ''not found'')), ())"
    by (simp add: watcherEnvMissing_def watcherA_def)
  show ?thesis
    using build_after_environment_fetch_error [OF a b, of "[]"]
          build_after_environment_fetch_error [OF a' b', of "[]"] a b b'
    by (simp add: watcherEnvError_def watcherEnvMissing_def watcherA_def stored_def pkgA_def
          emptyEnv_def meta_def)
qed

section \<open>No ready builder\<close>

lemma healthCheck_ends:
  assumes dec: "\<forall>b. NextExists pkgw b \<longrightarrow> mu (snd (GetNext pkgw b)) < (mu b :: nat)"
    and ne: "\<forall>w. fst (podInformerList pkgw builderNs w) \<noteq> []"
  shows "\<exists>fl. healthCheck pkgw pkg env err builderNs bo st = Some fl"
proof (induction "mu bo" arbitrary: bo st rule: less_induct)
  case less
  show ?case
  proof (cases "NextExists pkgw bo")
    case False
    then show ?thesis by (subst healthCheck.simps) simp
  next
    case True
    obtain items st1 where l: "callPodInformerList pkgw builderNs st = (items, st1)"
      by (metis surj_pair)
    from callPodInformerList_trace [of pkgw builderNs "fst st" "snd st" items st1] l ne
    have nonempty: "items \<noteq> []"
      by (metis fst_conv prod.collapse)
    obtain d bo' where g: "GetNext pkgw bo = (d, bo')" by (metis surj_pair)
    with dec True have "mu bo' < mu bo" by (metis snd_conv)
    from less [OF this]
    have ih: "\<exists>fl. healthCheck pkgw pkg env err builderNs bo' st2 = Some fl" for st2 .
    show ?thesis
    proof (cases "scanPods pkgw pkg env builderNs bo items st1")
      case (Returned st2)
      with True l nonempty show ?thesis by (subst healthCheck.simps) simp
    next
      case (Continues st2)
      from ih [of "sleepFor d st2"] obtain fl where
        "healthCheck pkgw pkg env err builderNs bo' (sleepFor d st2) = Some fl" ..
      with True l nonempty Continues g show ?thesis by (subst healthCheck.simps) auto
    qed
  qed
qed

lemma healthCheck_never_ready:
  assumes h: "healthCheck pkgw pkg env None builderNs bo st = Some fl"
    and never: "\<forall>w. list_all (\<lambda>pod. nonMatching pkgw env builderNs pod \<or> \<not> podIsReady pod)
                      (fst (podInformerList pkgw builderNs w))"
  shows "\<exists>polls st1. list_all isPollEvent polls \<and> snd st1 = snd st @ polls \<and> fl = Continues st1"
proof -
  from healthCheck_shape [OF h] obtain polls st1 where
    p: "list_all isPollEvent polls" "snd st1 = snd st @ polls" and
    d: "fl = Continues st1 \<or> ((None :: Error option) \<noteq> None \<and> fl = Returned st1) \<or>
        ((None :: Error option) = None \<and> fl = Returned (buildAndUpdate pkgw builderNs pkg st1) \<and>
           (\<exists>w pod. pod \<in> set (fst (podInformerList pkgw builderNs w)) \<and>
                \<not> nonMatching pkgw env builderNs pod \<and> podIsReady pod))"
    by blast
  from never have "\<not> (\<exists>w pod. pod \<in> set (fst (podInformerList pkgw builderNs w)) \<and>
                \<not> nonMatching pkgw env builderNs pod \<and> podIsReady pod)"
    by (auto simp: list_all_iff)
  with d have "fl = Continues st1" by blast
  with p show ?thesis by blast
qed

text \<open>
  Claim C3.  Take a run whose update to Running and whose fetch of the environment
  succeed, and in which no listing of the pods ever holds a pod that matches the
  environment and is ready.  If the run ends (the loop is left because the back-off has
  no attempt left) then after the two first calls it has only listed pods and slept, and
  its last call is the one update to Failed with the log "Build timeout due to
  environment builder not ready": no build call, and Running and Failed are the only
  statuses written.  The run does end when every call of \<open>GetNext\<close> on a back-off
  with an attempt left brings the back-off nearer to its end and no listing is empty.
\<close>

theorem build_times_out_when_no_builder_ready:
  assumes u: "updatePackage pkgw srcpkg BuildStatusRunning [] None w = (Inr pkg, w1)"
    and g: "environmentsGet pkgw (Namespace (Environment (Spec pkg))) (Name (Environment (Spec pkg))) w1
              = ((env, None), w2)"
    and never: "\<forall>w. list_all (\<lambda>pod. nonMatching pkgw env (GetBuilderNS pkgw (Namespace (EnvMeta env))) pod
                                   \<or> \<not> podIsReady pod)
                      (fst (podInformerList pkgw (GetBuilderNS pkgw (Namespace (EnvMeta env))) w))"
  shows "(\<forall>st'. buildBody pkgw srcpkg (w, tr) = Some st' \<longrightarrow>
            (\<exists>polls r. list_all isPollEvent polls \<and>
               snd st' = tr @ [UpdatePackageCall srcpkg BuildStatusRunning [] None None,
                              GetEnvironmentCall (Namespace (Environment (Spec pkg)))
                                (Name (Environment (Spec pkg))) None] @ polls @
                           [UpdatePackageCall pkg BuildStatusFailed
                              ''Build timeout due to environment builder not ready'' None r] \<and>
               filter isBuildCall (drop (length tr) (snd st')) = [] \<and>
               concat (map statusWritten (drop (length tr) (snd st')))
                 = [BuildStatusRunning, BuildStatusFailed])) \<and>
         ((\<exists>mu :: 'b \<Rightarrow> nat. \<forall>b. NextExists pkgw b \<longrightarrow> mu (snd (GetNext pkgw b)) < mu b) \<and>
          (\<forall>w. fst (podInformerList pkgw (GetBuilderNS pkgw (Namespace (EnvMeta env))) w) \<noteq> []) \<longrightarrow>
            (\<exists>st'. buildBody pkgw srcpkg (w, tr) = Some st'))"
proof (intro conjI allI impI)
  fix st'
  assume b: "buildBody pkgw srcpkg (w, tr) = Some st'"
  define tr2 where "tr2 = tr @ [UpdatePackageCall srcpkg BuildStatusRunning [] None None,
                              GetEnvironmentCall (Namespace (Environment (Spec pkg)))
                                (Name (Environment (Spec pkg))) None]"
  from buildBody_paths [OF b] u g
  obtain fl where h: "healthCheck pkgw pkg env None (GetBuilderNS pkgw (Namespace (EnvMeta env)))
                         (NewDefaultBackOff pkgw) (w2, tr2) = Some fl"
    and f: "fl = Returned st' \<or>
              (\<exists>st3. fl = Continues st3 \<and>
                 st' = snd (callUpdatePackage pkgw pkg BuildStatusFailed
                        ''Build timeout due to environment builder not ready'' None st3))"
    unfolding tr2_def by auto
  from healthCheck_never_ready [OF h never] obtain polls st1 where
    p: "list_all isPollEvent polls" "snd st1 = tr2 @ polls" "fl = Continues st1"
    by auto
  with f have st': "st' = snd (callUpdatePackage pkgw pkg BuildStatusFailed
                        ''Build timeout due to environment builder not ready'' None st1)"
    by auto
  define r where "r = errorOf (fst (callUpdatePackage pkgw pkg BuildStatusFailed
                        ''Build timeout due to environment builder not ready'' None st1))"
  have shape: "snd st' = tr @ [UpdatePackageCall srcpkg BuildStatusRunning [] None None,
                              GetEnvironmentCall (Namespace (Environment (Spec pkg)))
                                (Name (Environment (Spec pkg))) None] @ polls @
                           [UpdatePackageCall pkg BuildStatusFailed
                              ''Build timeout due to environment builder not ready'' None r]"
    using st' p by (simp add: callUpdatePackage_snd tr2_def r_def)
  moreover have "filter isBuildCall (drop (length tr) (snd st')) = []"
    using shape poll_events_no_build [OF p(1)] by simp
  moreover have "concat (map statusWritten (drop (length tr) (snd st')))
                 = [BuildStatusRunning, BuildStatusFailed]"
    using shape poll_events_no_status [OF p(1)] by simp
  ultimately show "\<exists>polls r. list_all isPollEvent polls \<and>
               snd st' = tr @ [UpdatePackageCall srcpkg BuildStatusRunning [] None None,
                              GetEnvironmentCall (Namespace (Environment (Spec pkg)))
                                (Name (Environment (Spec pkg))) None] @ polls @
                           [UpdatePackageCall pkg BuildStatusFailed
                              ''Build timeout due to environment builder not ready'' None r] \<and>
               filter isBuildCall (drop (length tr) (snd st')) = [] \<and>
               concat (map statusWritten (drop (length tr) (snd st')))
                 = [BuildStatusRunning, BuildStatusFailed]"
    using p(1) by blast
next
  assume a: "(\<exists>mu :: 'b \<Rightarrow> nat. \<forall>b. NextExists pkgw b \<longrightarrow> mu (snd (GetNext pkgw b)) < mu b) \<and>
          (\<forall>w. fst (podInformerList pkgw (GetBuilderNS pkgw (Namespace (EnvMeta env))) w) \<noteq> [])"
  then obtain mu :: "'b \<Rightarrow> nat" where
    dec: "\<forall>b. NextExists pkgw b \<longrightarrow> mu (snd (GetNext pkgw b)) < mu b" by blast
  from a have ne: "\<forall>w. fst (podInformerList pkgw (GetBuilderNS pkgw (Namespace (EnvMeta env))) w) \<noteq> []"
    by blast
  from healthCheck_ends [OF dec ne] have
    "\<exists>fl. healthCheck pkgw pkg env None (GetBuilderNS pkgw (Namespace (EnvMeta env)))
        (NewDefaultBackOff pkgw) st = Some fl" for st .
  then show "\<exists>st'. buildBody pkgw srcpkg (w, tr) = Some st'"
    using u g
    by (auto simp: buildBody_def callUpdatePackage_def callEnvironmentsGet_def
          split: prod.splits option.splits flow.splits)
qed

theorem build_times_out_when_no_builder_ready_witness:
  "updatePackage watcherNoBuilder pkgA BuildStatusRunning [] None ()
      = (Inr (stored pkgA BuildStatusRunning []), ()) \<and>
   environmentsGet watcherNoBuilder ''default'' ''python'' () = ((envA, None), ()) \<and>
   (\<forall>w. list_all (\<lambda>pod. nonMatching watcherNoBuilder envA ''default'' pod \<or> \<not> podIsReady pod)
           (fst (podInformerList watcherNoBuilder ''default'' w))) \<and>
   (\<forall>w. fst (podInformerList watcherNoBuilder ''default'' w) \<noteq> []) \<and>
   (\<exists>st' polls r. buildBody watcherNoBuilder pkgA ((), []) = Some st' \<and>
       list_all isPollEvent polls \<and>
       snd st' = [UpdatePackageCall pkgA BuildStatusRunning [] None None,
                  GetEnvironmentCall ''default'' ''python'' None] @ polls @
                 [UpdatePackageCall (stored pkgA BuildStatusRunning []) BuildStatusFailed
                    ''Build timeout due to environment builder not ready'' None r] \<and>
       filter isBuildCall (snd st') = [] \<and>
       concat (map statusWritten (snd st')) = [BuildStatusRunning, BuildStatusFailed])"
proof -
  have ns: "GetBuilderNS watcherNoBuilder (Namespace (EnvMeta envA)) = ''default''"
    by (simp add: watcherNoBuilder_def watcherA_def envA_def meta_def)
  have a: "updatePackage watcherNoBuilder pkgA BuildStatusRunning [] None ()
      = (Inr (stored pkgA BuildStatusRunning []), ())"
    by (simp add: watcherNoBuilder_def watcherA_def)
  have b: "environmentsGet watcherNoBuilder (Namespace (Environment (Spec (stored pkgA BuildStatusRunning []))))
             (Name (Environment (Spec (stored pkgA BuildStatusRunning [])))) () = ((envA, None), ())"
    by (simp add: watcherNoBuilder_def watcherA_def)
  have nm: "Namespace (Environment (Spec (stored pkgA BuildStatusRunning []))) = ''default''"
       "Name (Environment (Spec (stored pkgA BuildStatusRunning []))) = ''python''"
    by (simp_all add: stored_def pkgA_def)
  have never: "\<forall>w. list_all (\<lambda>pod. nonMatching watcherNoBuilder envA
                        (GetBuilderNS watcherNoBuilder (Namespace (EnvMeta envA))) pod \<or> \<not> podIsReady pod)
           (fst (podInformerList watcherNoBuilder (GetBuilderNS watcherNoBuilder (Namespace (EnvMeta envA))) w))"
    by (simp add: ns)
       (simp add: watcherNoBuilder_def watcherA_def nonMatching_def podIsReady_def podOther_def
          podNotReady_def label_def meta_def envA_def builderLabels_def)
  have dec: "\<forall>b. NextExists watcherNoBuilder b \<longrightarrow> 3 - snd (GetNext watcherNoBuilder b) < 3 - b"
    by (auto simp: watcherNoBuilder_def watcherA_def)
  have ne: "\<forall>w. fst (podInformerList watcherNoBuilder ''default'' w) \<noteq> []"
    by (simp add: watcherNoBuilder_def watcherA_def)
  from dec have "\<exists>mu :: nat \<Rightarrow> nat. \<forall>b. NextExists watcherNoBuilder b
                    \<longrightarrow> mu (snd (GetNext watcherNoBuilder b)) < mu b"
    by (rule exI [of _ "\<lambda>b. 3 - b"])
  with build_times_out_when_no_builder_ready [OF a b never, of "[]"] ne ns
  obtain st' where s: "buildBody watcherNoBuilder pkgA ((), []) = Some st'" by auto
  with build_times_out_when_no_builder_ready [OF a b never, of "[]"] nm
  have "\<exists>polls r. list_all isPollEvent polls \<and>
       snd st' = [UpdatePackageCall pkgA BuildStatusRunning [] None None,
                  GetEnvironmentCall ''default'' ''python'' None] @ polls @
                 [UpdatePackageCall (stored pkgA BuildStatusRunning []) BuildStatusFailed
                    ''Build timeout due to environment builder not ready'' None r] \<and>
       filter isBuildCall (snd st') = [] \<and>
       concat (map statusWritten (snd st')) = [BuildStatusRunning, BuildStatusFailed]"
    by simp
  with s a b never ne ns nm show ?thesis by (simp del: append.simps)
qed

section \<open>The choice of the builder instance\<close>

lemma find_matching:
  "find (\<lambda>pod. \<not> nonMatching pkgw env builderNs pod) items =
   find (\<lambda>pod. label (PodMeta pod) (LABEL_ENV_NAME pkgw) = Name (EnvMeta env) \<and>
                label (PodMeta pod) (LABEL_ENV_NAMESPACE pkgw) = builderNs \<and>
                label (PodMeta pod) (LABEL_ENV_RESOURCEVERSION pkgw) = ResourceVersion (EnvMeta env)) items"
  by (rule arg_cong [where f = "\<lambda>p. find p items"]) (auto simp: nonMatching_def fun_eq_iff)

text \<open>
  Claim C5, as the code has it.  In an iteration of the poll loop the listed instances
  are gone through in order, and an instance counts only if its three labels equal the
  name of the environment, the resolved builder namespace and the resource version of
  the environment.  The first such instance decides the attempt: when all its
  containers report ready the build is started and its call is recorded; when not, the
  loop over the instances is left after a sleep and the later instances are not looked
  at in this attempt.  With no such instance the attempt ends without a build.
\<close>

theorem scanPods_first_match_decides:
  "scanPods pkgw pkg env builderNs bo items st =
     (case find (\<lambda>pod. label (PodMeta pod) (LABEL_ENV_NAME pkgw) = Name (EnvMeta env) \<and>
                   label (PodMeta pod) (LABEL_ENV_NAMESPACE pkgw) = builderNs \<and>
                   label (PodMeta pod) (LABEL_ENV_RESOURCEVERSION pkgw) = ResourceVersion (EnvMeta env))
             items of
        None \<Rightarrow> Continues st
      | Some pod \<Rightarrow>
          if list_all Ready (ContainerStatuses pod)
          then Returned (buildAndUpdate pkgw builderNs pkg st)
          else Continues (sleepFor (GetCurrentBackoffDuration pkgw bo) st)) \<and>
   (\<exists>e evs. snd (buildAndUpdate pkgw builderNs pkg st) = snd st @ BuildPackageCall builderNs pkg e # evs)"
  using buildAndUpdate_calls [of pkgw builderNs pkg st]
  by (auto simp: scanPods_find find_matching podIsReady_iff split: option.splits)

theorem scanPods_first_match_decides_witness:
  "scanPods watcherA pkgA envA ''default'' 0 [podOther, podNotReady, podReady] ((), [])
     = Continues ((), [SleepCall 500]) \<and>
   scanPods watcherA pkgA envA ''default'' 0 [podOther, podReady, podNotReady] ((), [])
     = Returned (buildAndUpdate watcherA ''default'' pkgA ((), [])) \<and>
   scanPods watcherA pkgA envA ''default'' 0 [podOther] ((), []) = Continues ((), [])"
  using scanPods_first_match_decides [of watcherA pkgA envA "''default''" 0 "[podOther, podNotReady, podReady]" "((), [])"]
        scanPods_first_match_decides [of watcherA pkgA envA "''default''" 0 "[podOther, podReady, podNotReady]" "((), [])"]
        scanPods_first_match_decides [of watcherA pkgA envA "''default''" 0 "[podOther]" "((), [])"]
  by (simp add: watcherA_def envA_def podOther_def podReady_def podNotReady_def meta_def label_def
        builderLabels_def sleepFor_def)

theorem scanPods_later_match_counterexample:
  "\<not> nonMatching watcherA envA ''default'' podNotReady \<and> \<not> podIsReady podNotReady \<and>
   \<not> nonMatching watcherA envA ''default'' podReady \<and> podIsReady podReady \<and>
   scanPods watcherA pkgA envA ''default'' 0 [podNotReady, podReady] ((), [])
     = Continues ((), [SleepCall 500]) \<and>
   map_option (map brief \<circ> snd) (buildBody watcherShadowed pkgA ((), [])) =
     Some [''updatePackage running'', ''Environments.Get'',
           ''pods'', ''sleep'', ''sleep'', ''pods'', ''sleep'', ''sleep'', ''pods'', ''sleep'', ''sleep'',
           ''updatePackage failed'']"
  by code_simp

text \<open>
  Claim C10, as the code has it.  An instance whose labels match and whose list of
  container statuses is empty passes the readiness check, the conjunction over no
  status being true.  When it is the first instance of the listing that matches, the
  loop over the listed instances reaches it and takes it as ready: the build is
  called, and an iteration of the poll loop that lists it that way ends the loop with
  the call of the build.  An instance listed after another matching instance is not
  looked at: the loop returns or is left at the first match.
\<close>

theorem pod_without_containers_is_ready:
  assumes "\<not> nonMatching pkgw env builderNs pod"
    and "ContainerStatuses pod = []"
    and "list_all (nonMatching pkgw env builderNs) before"
  shows "podIsReady pod \<and>
         scanPods pkgw pkg env builderNs bo (before @ pod # after) st
           = Returned (buildAndUpdate pkgw builderNs pkg st) \<and>
         (\<exists>e evs. snd (buildAndUpdate pkgw builderNs pkg st)
                     = snd st @ BuildPackageCall builderNs pkg e # evs) \<and>
         (NextExists pkgw bo \<and> podInformerList pkgw builderNs w = (before @ pod # after, w') \<longrightarrow>
            healthCheck pkgw pkg env None builderNs bo (w, tr)
              = Some (Returned (buildAndUpdate pkgw builderNs pkg (w', tr @ [ListPodsCall builderNs]))))"
proof -
  have ready: "podIsReady pod" using assms(2) by (simp add: podIsReady_def)
  have scan: "scanPods pkgw pkg env builderNs bo (before @ pod # after) st'
           = Returned (buildAndUpdate pkgw builderNs pkg st')" for st'
    using assms(1,3) ready by (induction before) simp_all
  have loop: "healthCheck pkgw pkg env None builderNs bo (w, tr)
              = Some (Returned (buildAndUpdate pkgw builderNs pkg (w', tr @ [ListPodsCall builderNs])))"
    if "NextExists pkgw bo" "podInformerList pkgw builderNs w = (before @ pod # after, w')"
    using that scan by (subst healthCheck.simps) (simp add: callPodInformerList_def)
  from ready scan loop buildAndUpdate_calls [of pkgw builderNs pkg st] show ?thesis by blast
qed

theorem pod_without_containers_is_ready_witness:
  "\<not> nonMatching watcherNoContainers envA ''default'' podNoContainers \<and>
   ContainerStatuses podNoContainers = [] \<and>
   list_all (nonMatching watcherNoContainers envA ''default'') [podOther] \<and>
   NextExists watcherNoContainers 0 \<and>
   podInformerList watcherNoContainers ''default'' () = ([podOther] @ podNoContainers # [], ()) \<and>
   podIsReady podNoContainers \<and>
   healthCheck watcherNoContainers pkgA envA None ''default'' 0 ((), [])
     = Some (Returned (buildAndUpdate watcherNoContainers ''default'' pkgA ((), [] @ [ListPodsCall ''default'']))) \<and>
   (\<exists>e evs. snd (buildAndUpdate watcherNoContainers ''default'' pkgA ((), [ListPodsCall ''default'']))
               = snd ((), [ListPodsCall ''default'']) @ BuildPackageCall ''default'' pkgA e # evs)"
proof -
  have a: "\<not> nonMatching watcherNoContainers envA ''default'' podNoContainers"
    by (simp add: nonMatching_def watcherNoContainers_def watcherA_def podNoContainers_def
          label_def meta_def builderLabels_def envA_def)
  have b: "ContainerStatuses podNoContainers = []" by (simp add: podNoContainers_def)
  have c: "list_all (nonMatching watcherNoContainers envA ''default'') [podOther]"
    by (simp add: nonMatching_def watcherNoContainers_def watcherA_def podOther_def
          label_def meta_def envA_def)
  have d: "NextExists watcherNoContainers 0 \<and>
           podInformerList watcherNoContainers ''default'' () = ([podOther] @ podNoContainers # [], ())"
    by (simp add: watcherNoContainers_def watcherA_def)
  from pod_without_containers_is_ready [OF a b c, of pkgA 0 "[]" "((), [ListPodsCall ''default''])" "()" "()" "[]"]
       a b c d
  show ?thesis by simp
qed

theorem pod_without_containers_late_counterexample:
  "\<not> nonMatching watcherA envA ''default'' podNoContainers \<and>
   ContainerStatuses podNoContainers = [] \<and>
   podIsReady podNoContainers \<and>
   \<not> nonMatching watcherA envA ''default'' podNotReady \<and>
   \<not> podIsReady podNotReady \<and>
   scanPods watcherA pkgA envA ''default'' 0 [podNotReady, podNoContainers] ((), [])
     = Continues ((), [SleepCall 500]) \<and>
   map_option (map brief \<circ> snd) (buildBody watcherNoContainersLate pkgA ((), [])) =
     Some [''updatePackage running'', ''Environments.Get'',
           ''pods'', ''sleep'', ''sleep'', ''pods'', ''sleep'', ''sleep'', ''pods'', ''sleep'', ''sleep'',
           ''updatePackage failed''] \<and>
   map_option (\<lambda>st. filter isBuildCall (snd st)) (buildBody watcherNoContainersLate pkgA ((), []))
     = Some []"
  by code_simp

section \<open>After the build: the functions of the package\<close>

text \<open>
  Claim C4, at a run in which the build succeeds and the listing of the functions
  fails.  The package is updated to Failed with the error of the listing in the log;
  the code does not return there, it goes on with the (empty) list it was given and
  updates the package to Succeeded with the same log.
\<close>

theorem build_goes_on_after_failed_function_listing:
  "map_option (map brief \<circ> snd) (buildBody watcherListFails pkgA ((), [])) =
     Some [''updatePackage running'', ''Environments.Get'', ''pods'', ''buildPackage'',
           ''Functions.List'', ''updatePackage failed'', ''updatePackage succeeded''] \<and>
   map_option (\<lambda>st. concat (map statusWritten (snd st))) (buildBody watcherListFails pkgA ((), [])) =
     Some [BuildStatusRunning, BuildStatusFailed, BuildStatusSucceeded] \<and>
   map_option (\<lambda>st. last (snd st)) (buildBody watcherListFails pkgA ((), [])) =
     Some (UpdatePackageCall (stored pkgA BuildStatusRunning []) BuildStatusSucceeded
             (''built'' @ ''error getting function list: list refused'' @ [CHR 0x0A])
             (Some \<lparr>ArchiveDownloadUrl = ''http://deploy''\<rparr>) None)"
  by code_simp



section \<open>The dispatch of the notifications\<close>

lemma buildWithCache_ext: "ext (buildWithCache pkgw pkg s) = ext s"
  by (simp add: buildWithCache_def cacheSet_def split: option.splits)

lemma resolver_step:
  "buildCache (s\<lparr>ext := snd (setInitialBuildStatus pkgw pkg (ext s))\<rparr>) = buildCache s \<and>
   goroutines (s\<lparr>ext := snd (setInitialBuildStatus pkgw pkg (ext s))\<rparr>) = goroutines s \<and>
   snd (ext (s\<lparr>ext := snd (setInitialBuildStatus pkgw pkg (ext s))\<rparr>)) =
     snd (ext s) @ [PackagesUpdateCall (initialStatus pkgw (timeNow pkgw (fst (ext s))) pkg)
        (errorOf (fst (packagesUpdate pkgw (initialStatus pkgw (timeNow pkgw (fst (ext s))) pkg)
                         (fst (ext s)))))]"
  by (simp add: setInitialBuildStatus_def callPackagesUpdate_def split: prod.splits)

text \<open>
  Claim C8, as the code has it.  A notification leads to one of three actions.
  With an empty status, an Added notification, and an Updated one whose resource
  version changed, call the resolver of the initial status and nothing else: one
  \<open>Packages.Update\<close> is recorded, the cache and the list of runs are as before.  An
  Updated notification with status Pending goes to \<open>buildWithCache\<close>, whether the
  resource version changed or not, and makes no call to the outside itself.  An
  Updated notification with an unchanged resource version and a status that is not
  Pending changes nothing, also when that status is empty; so does any notification
  whose status is neither empty nor Pending.
\<close>

theorem handler_dispatch:
  "(BuildStatus (Status pkg) = [] \<longrightarrow>
      AddFunc pkgw pkg s = s\<lparr>ext := snd (setInitialBuildStatus pkgw pkg (ext s))\<rparr>) \<and>
   (BuildStatus (Status pkg) = [] \<and>
    ResourceVersion (ObjectMeta oldPkg) \<noteq> ResourceVersion (ObjectMeta pkg) \<longrightarrow>
      UpdateFunc pkgw oldPkg pkg s = s\<lparr>ext := snd (setInitialBuildStatus pkgw pkg (ext s))\<rparr>) \<and>
   buildCache (s\<lparr>ext := snd (setInitialBuildStatus pkgw pkg (ext s))\<rparr>) = buildCache s \<and>
   goroutines (s\<lparr>ext := snd (setInitialBuildStatus pkgw pkg (ext s))\<rparr>) = goroutines s \<and>
   snd (ext (s\<lparr>ext := snd (setInitialBuildStatus pkgw pkg (ext s))\<rparr>)) =
     snd (ext s) @ [PackagesUpdateCall (initialStatus pkgw (timeNow pkgw (fst (ext s))) pkg)
        (errorOf (fst (packagesUpdate pkgw (initialStatus pkgw (timeNow pkgw (fst (ext s))) pkg)
                         (fst (ext s)))))] \<and>
   (BuildStatus (Status pkg) = BuildStatusPending \<longrightarrow>
      UpdateFunc pkgw oldPkg pkg s = buildWithCache pkgw pkg s \<and>
      AddFunc pkgw pkg s = buildWithCache pkgw pkg s) \<and>
   ext (buildWithCache pkgw pkg s) = ext s \<and>
   (ResourceVersion (ObjectMeta oldPkg) = ResourceVersion (ObjectMeta pkg) \<and>
    BuildStatus (Status pkg) \<noteq> BuildStatusPending \<longrightarrow>
      UpdateFunc pkgw oldPkg pkg s = s) \<and>
   (BuildStatus (Status pkg) \<noteq> [] \<and> BuildStatus (Status pkg) \<noteq> BuildStatusPending \<longrightarrow>
      UpdateFunc pkgw oldPkg pkg s = s \<and> AddFunc pkgw pkg s = s)"
  using resolver_step [where s = s and pkgw = pkgw and pkg = pkg]
        buildWithCache_ext [where s = s and pkgw = pkgw and pkg = pkg]
  by (simp add: AddFunc_def UpdateFunc_def processPkg_def BuildStatus_distinct)

theorem handler_dispatch_witness:
  "BuildStatus (Status pkgUnset) = [] \<and>
   ResourceVersion (ObjectMeta pkgOld) \<noteq> ResourceVersion (ObjectMeta pkgUnset) \<and>
   snd (ext (AddFunc watcherA pkgUnset (startSystem ())))
     = [PackagesUpdateCall (initialStatus watcherA 1 pkgUnset) None] \<and>
   snd (ext (UpdateFunc watcherA pkgOld pkgUnset (startSystem ())))
     = [PackagesUpdateCall (initialStatus watcherA 1 pkgUnset) None] \<and>
   goroutines (UpdateFunc watcherA pkgOld pkgUnset (startSystem ())) = [] \<and>
   BuildStatus (Status pkgA) = BuildStatusPending \<and>
   goroutines (UpdateFunc watcherA pkgA pkgA (startSystem ())) = [pkgA] \<and>
   goroutines (UpdateFunc watcherA pkgOld pkgA (startSystem ())) = [pkgA] \<and>
   goroutines (AddFunc watcherA pkgA (startSystem ())) = [pkgA] \<and>
   ResourceVersion (ObjectMeta pkgV2) = ResourceVersion (ObjectMeta pkgV2) \<and>
   BuildStatus (Status pkgV2) \<noteq> BuildStatusPending \<and> BuildStatus (Status pkgV2) \<noteq> [] \<and>
   UpdateFunc watcherA pkgV2 pkgV2 (startSystem ()) = startSystem () \<and>
   UpdateFunc watcherA pkgOld pkgV2 (startSystem ()) = startSystem () \<and>
   AddFunc watcherA pkgV2 (startSystem ()) = startSystem ()"
  using handler_dispatch [where pkg = pkgUnset and pkgw = watcherA and s = "startSystem ()" and oldPkg = pkgOld]
        handler_dispatch [where pkg = pkgA and pkgw = watcherA and s = "startSystem ()" and oldPkg = pkgA]
        handler_dispatch [where pkg = pkgA and pkgw = watcherA and s = "startSystem ()" and oldPkg = pkgOld]
        handler_dispatch [where pkg = pkgV2 and pkgw = watcherA and s = "startSystem ()" and oldPkg = pkgV2]
        handler_dispatch [where pkg = pkgV2 and pkgw = watcherA and s = "startSystem ()" and oldPkg = pkgOld]
  by (simp add: pkgUnset_def pkgOld_def pkgA_def pkgV2_def stored_def meta_def startSystem_def
        BuildStatus_distinct watcherA_def buildWithCache_def cacheSet_def buildCacheKey_def
        BuildStatusRunning_def BuildStatusPending_def)

theorem handler_unset_same_version_counterexample:
  "BuildStatus (Status pkgUnset) = [] \<and>
   UpdateFunc watcherA pkgUnset pkgUnset (startSystem ()) = startSystem () \<and>
   snd (ext (UpdateFunc watcherA pkgUnset pkgUnset (startSystem ()))) = [] \<and>
   snd (ext (AddFunc watcherA pkgUnset (startSystem ())))
     = [PackagesUpdateCall (initialStatus watcherA 1 pkgUnset) None]"
  by (simp add: UpdateFunc_def AddFunc_def processPkg_def pkgUnset_def startSystem_def
        BuildStatusPending_def setInitialBuildStatus_def callPackagesUpdate_def watcherA_def)

section \<open>One run per cache key\<close>

lemma guardInv_start: "guardInv (startSystem w)"
  by (simp add: guardInv_def startSystem_def)

lemma buildWithCache_cases:
  "buildWithCache pkgw pkg s =
     (if buildCache s (keyOf pkg) = None
      then s\<lparr>buildCache := (buildCache s)(keyOf pkg \<mapsto> pkg), goroutines := goroutines s @ [pkg]\<rparr>
      else s)"
  by (auto simp: buildWithCache_def cacheSet_def keyOf_def split: option.splits)

lemma guardInv_buildWithCache: "guardInv s \<Longrightarrow> guardInv (buildWithCache pkgw pkg s)"
  by (auto simp: buildWithCache_cases guardInv_def)

lemma guardInv_ext: "guardInv (s\<lparr>ext := x\<rparr>) = guardInv s"
  by (simp add: guardInv_def)

lemma guardInv_processPkg: "guardInv s \<Longrightarrow> guardInv (processPkg pkgw pkg s)"
  by (simp add: processPkg_def guardInv_buildWithCache guardInv_ext)

lemma remove_nth_keys:
  "distinct (map f xs) \<Longrightarrow> i < length xs \<Longrightarrow>
     set (map f (take i xs @ drop (Suc i) xs)) = set (map f xs) - {f (xs ! i)} \<and>
     distinct (map f (take i xs @ drop (Suc i) xs))"
proof (induction xs arbitrary: i)
  case Nil
  then show ?case by simp
next
  case (Cons x xs)
  show ?case
  proof (cases i)
    case 0
    with Cons.prems show ?thesis by auto
  next
    case (Suc j)
    with Cons.prems have "distinct (map f xs)" "j < length xs" by simp_all
    from Cons.IH [OF this] Cons.prems Suc show ?thesis by auto
  qed
qed

lemma build_cases:
  "build pkgw srcpkg (c, st) =
     (case buildBody pkgw srcpkg st of
        None \<Rightarrow> None
      | Some st' \<Rightarrow> Some (c(keyOf srcpkg := None), st'))"
  by (simp add: build_def cacheDelete_def keyOf_def split: option.splits)

lemma guardInv_endRun: "guardInv s \<Longrightarrow> guardInv (endRun pkgw i s)"
proof -
  assume inv: "guardInv s"
  show ?thesis
  proof (cases "i < length (goroutines s)")
    case False
    with inv show ?thesis by (simp add: endRun_def)
  next
    case True
    show ?thesis
    proof (cases "buildBody pkgw (goroutines s ! i) (ext s)")
      case None
      with inv True show ?thesis by (simp add: endRun_def build_cases)
    next
      case (Some st')
      from inv have d: "distinct (map keyOf (goroutines s))"
        and m: "dom (buildCache s) = set (map keyOf (goroutines s))"
        by (simp_all add: guardInv_def)
      from remove_nth_keys [OF d True]
      have "set (map keyOf (take i (goroutines s) @ drop (Suc i) (goroutines s)))
              = dom ((buildCache s)(keyOf (goroutines s ! i) := None))"
        and "distinct (map keyOf (take i (goroutines s) @ drop (Suc i) (goroutines s)))"
        using m by auto
      with Some True show ?thesis
        by (simp add: endRun_def build_cases guardInv_def)
    qed
  qed
qed

lemma guardInv_doStep: "guardInv s \<Longrightarrow> guardInv (doStep pkgw a s)"
  by (cases a) (simp_all add: AddFunc_def UpdateFunc_def guardInv_processPkg guardInv_endRun)

lemma guardInv_doSteps: "guardInv s \<Longrightarrow> guardInv (doSteps pkgw as s)"
  by (induction as arbitrary: s) (simp_all add: guardInv_doStep)

lemma distinct_filter_le_one:
  "distinct (map f xs) \<Longrightarrow> length (filter (\<lambda>x. f x = k) xs) \<le> 1"
  by (induction xs) (auto simp: filter_empty_conv image_iff)

lemma deliver_pending_twice:
  assumes "BuildStatus (Status pkg) = BuildStatusPending"
  shows "doStep pkgw (Updated oldPkg pkg) (buildWithCache pkgw pkg s) = buildWithCache pkgw pkg s"
  using assms by (simp add: UpdateFunc_def processPkg_def BuildStatus_distinct buildWithCache_cases)

lemma deliver_pending_many:
  assumes "BuildStatus (Status pkg) = BuildStatusPending"
  shows "doSteps pkgw (replicate (Suc n) (Updated oldPkg pkg)) s = buildWithCache pkgw pkg s"
proof (induction n)
  case 0
  from assms show ?case by (simp add: UpdateFunc_def processPkg_def BuildStatus_distinct)
next
  case (Suc n)
  have "doSteps pkgw (replicate (Suc (Suc n)) (Updated oldPkg pkg)) s
          = doSteps pkgw (replicate (Suc n) (Updated oldPkg pkg)) (doStep pkgw (Updated oldPkg pkg) s)"
    by simp
  also have "doStep pkgw (Updated oldPkg pkg) s = buildWithCache pkgw pkg s"
    using assms by (simp add: UpdateFunc_def processPkg_def BuildStatus_distinct)
  also have "doSteps pkgw (replicate (Suc n) (Updated oldPkg pkg)) (buildWithCache pkgw pkg s)
               = buildWithCache pkgw pkg s"
  proof (induction n)
    case 0
    from deliver_pending_twice [OF assms] show ?case by simp
  next
    case (Suc m)
    from deliver_pending_twice [OF assms, of pkgw oldPkg s] Suc show ?case by simp
  qed
  finally show ?case .
qed

lemma buildBody_one_build:
  assumes "buildBody pkgw srcpkg (w, tr) = Some st'"
  shows "length (filter isBuildCall (drop (length tr) (snd st'))) \<le> 1"
proof -
  from buildBody_paths [OF assms] show ?thesis
  proof (elim disjE exE conjE)
    fix e w1
    assume "st' = (w1, tr @ [UpdatePackageCall srcpkg BuildStatusRunning [] None (Some e)])"
    then show ?thesis by simp
  next
    fix pkg w1 env err w2 tr2
    assume tr2: "tr2 = tr @ [UpdatePackageCall srcpkg BuildStatusRunning [] None None,
                        GetEnvironmentCall (Namespace (Environment (Spec pkg)))
                          (Name (Environment (Spec pkg))) err]"
      and c: "if IsNotFound err then
               st' = snd (callUpdatePackage pkgw pkg BuildStatusFailed
                            (''environment does not exist'' @ '': ''
                               @ quoteQ pkgw (Name (Environment (Spec pkg)))) None (w2, tr2))
             else
               (\<exists>fl. healthCheck pkgw pkg env err (GetBuilderNS pkgw (Namespace (EnvMeta env)))
                         (NewDefaultBackOff pkgw) (w2, tr2) = Some fl \<and>
                     (fl = Returned st' \<or>
                      (\<exists>st3. fl = Continues st3 \<and>
                         st' = snd (callUpdatePackage pkgw pkg BuildStatusFailed
                                ''Build timeout due to environment builder not ready'' None st3))))"
    have "\<exists>evs. snd st' = tr2 @ evs \<and> length (filter isBuildCall evs) \<le> 1"
    proof (cases "IsNotFound err")
      case True
      with c show ?thesis by (simp add: callUpdatePackage_snd)
    next
      case False
      with c obtain fl where h: "healthCheck pkgw pkg env err (GetBuilderNS pkgw (Namespace (EnvMeta env)))
                         (NewDefaultBackOff pkgw) (w2, tr2) = Some fl"
        and f: "fl = Returned st' \<or>
                      (\<exists>st3. fl = Continues st3 \<and>
                         st' = snd (callUpdatePackage pkgw pkg BuildStatusFailed
                                ''Build timeout due to environment builder not ready'' None st3))"
        by auto
      from healthCheck_shape [OF h] obtain polls st1 where
        p: "list_all isPollEvent polls" "snd st1 = tr2 @ polls" and
        d: "fl = Continues st1 \<or> (err \<noteq> None \<and> fl = Returned st1) \<or>
            (err = None \<and> fl = Returned (buildAndUpdate pkgw (GetBuilderNS pkgw (Namespace (EnvMeta env))) pkg st1))"
        by auto
      from buildAndUpdate_calls [of pkgw "GetBuilderNS pkgw (Namespace (EnvMeta env))" pkg st1]
      obtain berr evs where
        b: "snd (buildAndUpdate pkgw (GetBuilderNS pkgw (Namespace (EnvMeta env))) pkg st1)
              = snd st1 @ BuildPackageCall (GetBuilderNS pkgw (Namespace (EnvMeta env))) pkg berr # evs"
          "\<not> list_ex isBuildCall evs"
        by blast
      from b(2) have nb: "filter isBuildCall evs = []"
        by (simp add: list_ex_iff filter_empty_conv)
      from d f p b(1) nb poll_events_no_build [OF p(1)] show ?thesis
        by (auto simp: callUpdatePackage_snd)
    qed
    with tr2 show ?thesis by auto
  qed
qed

lemma buildBody_reaches_build:
  assumes u: "updatePackage pkgw srcpkg BuildStatusRunning [] None w = (Inr pkg, w1)"
    and g: "environmentsGet pkgw (Namespace (Environment (Spec pkg))) (Name (Environment (Spec pkg))) w1
              = ((env, None), w2)"
    and n: "NextExists pkgw (NewDefaultBackOff pkgw)"
    and l: "podInformerList pkgw (GetBuilderNS pkgw (Namespace (EnvMeta env))) w2 = (items, w3)"
    and f: "find (\<lambda>pod. \<not> nonMatching pkgw env (GetBuilderNS pkgw (Namespace (EnvMeta env))) pod) items
              = Some pod"
    and r: "podIsReady pod"
  shows "\<exists>st'. buildBody pkgw srcpkg (w, tr) = Some st' \<and>
               length (filter isBuildCall (drop (length tr) (snd st'))) = 1"
proof -
  define ns where "ns = GetBuilderNS pkgw (Namespace (EnvMeta env))"
  define tr2 where "tr2 = tr @ [UpdatePackageCall srcpkg BuildStatusRunning [] None None,
                        GetEnvironmentCall (Namespace (Environment (Spec pkg)))
                          (Name (Environment (Spec pkg))) None]"
  define tr3 where "tr3 = tr2 @ [ListPodsCall ns]"
  from f have ne: "items \<noteq> []" by auto
  from f r have scan: "scanPods pkgw pkg env ns (NewDefaultBackOff pkgw) items st
                         = Returned (buildAndUpdate pkgw ns pkg st)" for st
    by (simp add: scanPods_find ns_def)
  have hc: "healthCheck pkgw pkg env None ns (NewDefaultBackOff pkgw) (w2, tr2)
              = Some (Returned (buildAndUpdate pkgw ns pkg (w3, tr3)))"
    using n l ne scan
    by (subst healthCheck.simps) (simp add: callPodInformerList_def ns_def tr3_def)
  have b: "buildBody pkgw srcpkg (w, tr) = Some (buildAndUpdate pkgw ns pkg (w3, tr3))"
    using u g hc
    by (simp add: buildBody_def callUpdatePackage_def callEnvironmentsGet_def ns_def tr2_def)
  from buildAndUpdate_calls [of pkgw ns pkg "(w3, tr3)"] obtain err evs where
    c: "snd (buildAndUpdate pkgw ns pkg (w3, tr3)) = tr3 @ BuildPackageCall ns pkg err # evs"
       "\<not> list_ex isBuildCall evs" by auto
  from c(2) have "filter isBuildCall evs = []" by (simp add: list_ex_iff filter_empty_conv)
  with c(1) have "length (filter isBuildCall (drop (length tr) (snd (buildAndUpdate pkgw ns pkg (w3, tr3))))) = 1"
    by (simp add: tr3_def tr2_def)
  with b show ?thesis by blast
qed

text \<open>
  Claim C1, as the code has it.  The key of a package is its namespace, its name and
  its resource version joined by "-".  In every state the watcher can reach there is at
  most one run in flight per key, and a key is free in the cache exactly when no run
  with this key is in flight.  Delivering the same notification with
  status Pending one or more times, while the key is free at the first delivery and no
  run ends in between, starts exactly one run and makes no call to the outside.  A run
  that ends has called the build at most once, and on whatever path its body ended the
  deferred function has removed its key, so that the key is admitted again: after the
  run has ended the same notification starts a run again.  The run calls the build
  exactly once when it gets there: the update to Running and the fetch of the
  environment succeed and the first listing has a ready instance as its first match.
\<close>

theorem dedup_guard_one_run_per_key:
  "keyOf pkg = Namespace (ObjectMeta pkg) @ ''-'' @ Name (ObjectMeta pkg) @ ''-''
                 @ ResourceVersion (ObjectMeta pkg) \<and>
   (\<forall>k. length (filter (\<lambda>p. keyOf p = k) (goroutines (doSteps pkgw steps (startSystem w0)))) \<le> 1) \<and>
   (\<forall>k. buildCache (doSteps pkgw steps (startSystem w0)) k = None \<longleftrightarrow>
          filter (\<lambda>p. keyOf p = k) (goroutines (doSteps pkgw steps (startSystem w0))) = []) \<and>
   (BuildStatus (Status pkg) = BuildStatusPending \<and> buildCache s (keyOf pkg) = None \<longrightarrow>
      goroutines (doSteps pkgw (replicate (Suc n) (Updated oldPkg pkg)) s) = goroutines s @ [pkg] \<and>
      ext (doSteps pkgw (replicate (Suc n) (Updated oldPkg pkg)) s) = ext s \<and>
      buildCache (doSteps pkgw (replicate (Suc n) (Updated oldPkg pkg)) s) (keyOf pkg) = Some pkg) \<and>
   (buildBody pkgw pkg (w, tr) = Some st' \<longrightarrow>
      length (filter isBuildCall (drop (length tr) (snd st'))) \<le> 1 \<and>
      build pkgw pkg (c, (w, tr)) = Some (c(keyOf pkg := None), st') \<and>
      fst (cacheSet (keyOf pkg) pkg (c(keyOf pkg := None))) = None) \<and>
   (BuildStatus (Status pkg) = BuildStatusPending \<and> buildBody pkgw pkg (w, []) = Some st' \<longrightarrow>
      goroutines (doSteps pkgw (replicate (Suc n) (Updated oldPkg pkg) @ [Ends 0]) (startSystem w)) = [] \<and>
      goroutines (doSteps pkgw (replicate (Suc n) (Updated oldPkg pkg) @ [Ends 0, Updated oldPkg pkg])
                    (startSystem w)) = [pkg]) \<and>
   (updatePackage pkgw pkg BuildStatusRunning [] None w = (Inr pkg1, w1) \<and>
    environmentsGet pkgw (Namespace (Environment (Spec pkg1))) (Name (Environment (Spec pkg1))) w1
      = ((env, None), w2) \<and>
    NextExists pkgw (NewDefaultBackOff pkgw) \<and>
    podInformerList pkgw (GetBuilderNS pkgw (Namespace (EnvMeta env))) w2 = (items, w3) \<and>
    find (\<lambda>pod. \<not> nonMatching pkgw env (GetBuilderNS pkgw (Namespace (EnvMeta env))) pod) items
      = Some pod \<and>
    podIsReady pod \<longrightarrow>
      (\<exists>st1. buildBody pkgw pkg (w, tr) = Some st1 \<and>
             length (filter isBuildCall (drop (length tr) (snd st1))) = 1))"
proof (intro conjI allI impI)
  show "keyOf pkg = Namespace (ObjectMeta pkg) @ ''-'' @ Name (ObjectMeta pkg) @ ''-''
                 @ ResourceVersion (ObjectMeta pkg)"
    by (simp add: keyOf_def buildCacheKey_def)
next
  have inv: "guardInv (doSteps pkgw steps (startSystem w0))"
    by (rule guardInv_doSteps) (rule guardInv_start)
  fix k
  from inv show "length (filter (\<lambda>p. keyOf p = k) (goroutines (doSteps pkgw steps (startSystem w0)))) \<le> 1"
    using distinct_filter_le_one [of keyOf "goroutines (doSteps pkgw steps (startSystem w0))" k]
    by (simp add: guardInv_def)
  from inv have "dom (buildCache (doSteps pkgw steps (startSystem w0)))
                   = keyOf ` set (goroutines (doSteps pkgw steps (startSystem w0)))"
    by (simp add: guardInv_def)
  then have "k \<notin> dom (buildCache (doSteps pkgw steps (startSystem w0)))
               \<longleftrightarrow> k \<notin> keyOf ` set (goroutines (doSteps pkgw steps (startSystem w0)))"
    by simp
  then show "buildCache (doSteps pkgw steps (startSystem w0)) k = None \<longleftrightarrow>
          filter (\<lambda>p. keyOf p = k) (goroutines (doSteps pkgw steps (startSystem w0))) = []"
    by (auto simp: filter_empty_conv domIff)
next
  assume a: "BuildStatus (Status pkg) = BuildStatusPending \<and> buildCache s (keyOf pkg) = None"
  then have d: "doSteps pkgw (replicate (Suc n) (Updated oldPkg pkg)) s = buildWithCache pkgw pkg s"
    using deliver_pending_many by blast
  from a d show "goroutines (doSteps pkgw (replicate (Suc n) (Updated oldPkg pkg)) s) = goroutines s @ [pkg]"
    by (simp add: buildWithCache_cases)
  from d show "ext (doSteps pkgw (replicate (Suc n) (Updated oldPkg pkg)) s) = ext s"
    by (simp add: buildWithCache_ext)
  from a d show "buildCache (doSteps pkgw (replicate (Suc n) (Updated oldPkg pkg)) s) (keyOf pkg) = Some pkg"
    by (simp add: buildWithCache_cases)
next
  assume b: "buildBody pkgw pkg (w, tr) = Some st'"
  from buildBody_one_build [OF b]
  show "length (filter isBuildCall (drop (length tr) (snd st'))) \<le> 1" .
  from b show "build pkgw pkg (c, (w, tr)) = Some (c(keyOf pkg := None), st')"
    by (simp add: build_cases)
  show "fst (cacheSet (keyOf pkg) pkg (c(keyOf pkg := None))) = None"
    by (simp add: cacheSet_def)
next
  assume a: "BuildStatus (Status pkg) = BuildStatusPending \<and> buildBody pkgw pkg (w, []) = Some st'"
  then have d: "doSteps pkgw (replicate (Suc n) (Updated oldPkg pkg)) (startSystem w)
                  = buildWithCache pkgw pkg (startSystem w)"
    using deliver_pending_many by blast
  have app: "doSteps pkgw (xs @ ys) s = doSteps pkgw ys (doSteps pkgw xs s)" for xs ys and s :: "'a system"
    by (induction xs arbitrary: s) simp_all
  have e: "endRun pkgw 0 (buildWithCache pkgw pkg (startSystem w))
             = \<lparr>buildCache = Map.empty, goroutines = [], ext = st'\<rparr>"
    using a by (simp add: endRun_def buildWithCache_cases startSystem_def build_cases)
  from d e show "goroutines (doSteps pkgw (replicate (Suc n) (Updated oldPkg pkg) @ [Ends 0])
                    (startSystem w)) = []"
    by (simp add: app del: replicate.simps)
  from d e a show "goroutines (doSteps pkgw (replicate (Suc n) (Updated oldPkg pkg) @ [Ends 0, Updated oldPkg pkg])
                    (startSystem w)) = [pkg]"
    by (simp add: app UpdateFunc_def processPkg_def BuildStatus_distinct buildWithCache_cases
          del: replicate.simps)
next
  assume "updatePackage pkgw pkg BuildStatusRunning [] None w = (Inr pkg1, w1) \<and>
    environmentsGet pkgw (Namespace (Environment (Spec pkg1))) (Name (Environment (Spec pkg1))) w1
      = ((env, None), w2) \<and>
    NextExists pkgw (NewDefaultBackOff pkgw) \<and>
    podInformerList pkgw (GetBuilderNS pkgw (Namespace (EnvMeta env))) w2 = (items, w3) \<and>
    find (\<lambda>pod. \<not> nonMatching pkgw env (GetBuilderNS pkgw (Namespace (EnvMeta env))) pod) items
      = Some pod \<and>
    podIsReady pod"
  then show "\<exists>st1. buildBody pkgw pkg (w, tr) = Some st1 \<and>
             length (filter isBuildCall (drop (length tr) (snd st1))) = 1"
    using buildBody_reaches_build [of pkgw pkg w pkg1 w1 env w2 items w3 pod tr] by blast
qed

theorem dedup_guard_one_run_per_key_witness:
  "BuildStatus (Status pkgA) = BuildStatusPending \<and>
   buildCache (startSystem ()) (keyOf pkgA) = None \<and>
   goroutines (doSteps watcherA (replicate (Suc 2) (Updated pkgOld pkgA)) (startSystem ())) = [pkgA] \<and>
   (\<exists>st'. buildBody watcherA pkgA ((), []) = Some st' \<and>
      length (filter isBuildCall (snd st')) \<le> 1 \<and>
      build watcherA pkgA (Map.empty(keyOf pkgA \<mapsto> pkgA), ((), []))
        = Some ((Map.empty(keyOf pkgA \<mapsto> pkgA))(keyOf pkgA := None), st')) \<and>
   goroutines (doSteps watcherA (replicate (Suc 2) (Updated pkgOld pkgA) @ [Ends 0]) (startSystem ())) = [] \<and>
   goroutines (doSteps watcherA (replicate (Suc 2) (Updated pkgOld pkgA) @ [Ends 0, Updated pkgOld pkgA])
                 (startSystem ())) = [pkgA] \<and>
   find (\<lambda>pod. \<not> nonMatching watcherA envA ''default'' pod) [podOther, podReady] = Some podReady \<and>
   podIsReady podReady \<and>
   (\<exists>st1. buildBody watcherA pkgA ((), []) = Some st1 \<and> length (filter isBuildCall (snd st1)) = 1)"
proof -
  have h1: "updatePackage watcherA pkgA BuildStatusRunning [] None ()
              = (Inr (stored pkgA BuildStatusRunning []), ())"
    by (simp add: watcherA_def)
  have h2: "environmentsGet watcherA (Namespace (Environment (Spec (stored pkgA BuildStatusRunning []))))
              (Name (Environment (Spec (stored pkgA BuildStatusRunning [])))) () = ((envA, None), ())"
    by (simp add: watcherA_def)
  have h3: "NextExists watcherA (NewDefaultBackOff watcherA)" by (simp add: watcherA_def)
  have ns: "GetBuilderNS watcherA (Namespace (EnvMeta envA)) = ''default''"
    by (simp add: watcherA_def envA_def meta_def)
  have h4: "podInformerList watcherA (GetBuilderNS watcherA (Namespace (EnvMeta envA))) ()
              = ([podOther, podReady], ())"
    by (simp add: watcherA_def)
  have h5: "find (\<lambda>pod. \<not> nonMatching watcherA envA ''default'' pod) [podOther, podReady] = Some podReady"
    by (simp add: nonMatching_def watcherA_def podOther_def podReady_def label_def meta_def
          builderLabels_def envA_def)
  have h6: "podIsReady podReady" by (simp add: podIsReady_def podReady_def)
  have p: "BuildStatus (Status pkgA) = BuildStatusPending" by (simp add: pkgA_def)
  have f: "buildCache (startSystem ()) (keyOf pkgA) = None" by (simp add: startSystem_def)
  have "buildBody watcherA pkgA ((), []) \<noteq> None" by code_simp
  then obtain st' where s: "buildBody watcherA pkgA ((), []) = Some st'" by blast
  from dedup_guard_one_run_per_key [where pkgw = watcherA and pkg = pkgA and s = "startSystem ()"
         and n = 2 and oldPkg = pkgOld and w = "()" and tr = "[]" and st' = st'
         and c = "Map.empty(keyOf pkgA \<mapsto> pkgA)" and steps = "[]" and ?w0.0 = "()"
         and ?pkg1.0 = "stored pkgA BuildStatusRunning []" and ?w1.0 = "()" and env = envA
         and ?w2.0 = "()" and items = "[podOther, podReady]" and ?w3.0 = "()" and pod = podReady,
         THEN conjunct2, THEN conjunct2, THEN conjunct2] p f s h1 h2 h3 h4 h5 h6 ns
  show ?thesis by (simp add: startSystem_def del: replicate.simps)
qed

theorem dedup_no_build_counterexample:
  "BuildStatus (Status pkgA) = BuildStatusPending \<and>
   goroutines (doSteps watcherConflict [Updated pkgA pkgA, Updated pkgA pkgA, Updated pkgA pkgA]
                 (startSystem ())) = [pkgA] \<and>
   goroutines (doSteps watcherConflict [Updated pkgA pkgA, Updated pkgA pkgA, Updated pkgA pkgA, Ends 0]
                 (startSystem ())) = [] \<and>
   map brief (snd (ext (doSteps watcherConflict
                 [Updated pkgA pkgA, Updated pkgA pkgA, Updated pkgA pkgA, Ends 0] (startSystem ()))))
     = [''updatePackage running''] \<and>
   length (filter isBuildCall (snd (ext (doSteps watcherConflict
                 [Updated pkgA pkgA, Updated pkgA pkgA, Updated pkgA pkgA, Ends 0] (startSystem ()))))) = 0"
  by code_simp

end
